theory Spec2Isabelle
  imports Main
begin

section \<open>The EMNIST lab notebook: data model\<close>

text \<open>
  The notebook \<^verbatim>\<open>lab07_emnist_partial.ipynb\<close> consists of two Python functions
  (\<^verbatim>\<open>load_emnist\<close>, \<^verbatim>\<open>plt_digit\<close>), a plotting loop, a few assignments of
  constants, and code cells that hold only imports or \<^verbatim>\<open># TODO\<close> comments.

  Exceptions are values of the type \<open>error\<close>; a computation that may raise returns
  \<open>error + 'a\<close>, with \<open>Inl\<close> for the exception.
\<close>

datatype error =
    FileNotFoundError
  | KeyError string
  | IndexError
  | ValueError
  | TypeError
  | NameError string
  | AttributeError
  | LibraryError string

text \<open>
  Sequencing: the first exception raised ends the computation and is its result.
\<close>

definition raise_or :: "error + 'b \<Rightarrow> ('b \<Rightarrow> error + 'c) \<Rightarrow> error + 'c" where
  "raise_or r f = (case r of Inl e \<Rightarrow> Inl e | Inr x \<Rightarrow> f x)"

text \<open>
  What \<^verbatim>\<open>scipy.io.loadmat\<close> returns: a dict from variable names to values. A value is
  a numeric scalar of the file's element type \<open>'a\<close>, a MATLAB struct record (a
  \<^verbatim>\<open>numpy.void\<close>, indexed by field position), or an n-dimensional array given by its
  shape and its elements in row-major order. The elements of an array are values again, as
  in arrays of dtype object and in struct arrays.
\<close>

datatype 'a mval =
    Scalar 'a
  | Struct "'a mval list"
  | NdArray "nat list" "'a mval list"

type_synonym 'a mat = "string \<rightharpoonup> 'a mval"

text \<open>An array held in a Python variable: shape and elements in row-major order.\<close>

record 'e ndarray =
  shape :: "nat list"
  items :: "'e list"

text \<open>The number of elements of an array (\<^verbatim>\<open>a.size\<close>).\<close>

definition size_nd :: "'e ndarray \<Rightarrow> nat" where
  "size_nd a = length (items a)"

text \<open>
  Arrays built by numpy hold as many elements as their shape says; values read from a file
  are well formed at every level.
\<close>

definition wf_nd :: "'e ndarray \<Rightarrow> bool" where
  "wf_nd a = (length (items a) = prod_list (shape a))"

fun wf_mval :: "'a mval \<Rightarrow> bool" where
  "wf_mval (Scalar a) = True"
| "wf_mval (Struct fs) = list_all wf_mval fs"
| "wf_mval (NdArray sh xs) = (length xs = prod_list sh \<and> list_all wf_mval xs)"

subsection \<open>Subscripts\<close>

text \<open>
  \<^verbatim>\<open>v[i]\<close> for a literal index \<open>i \<ge> 0\<close>. On an array it selects along the first axis: an
  element of a one-dimensional array, a sub-array otherwise. On a struct record it selects
  the field at that position. A zero-dimensional array, a scalar, and an index past the end
  raise IndexError.
\<close>

fun getitem :: "'a mval \<Rightarrow> nat \<Rightarrow> error + 'a mval" where
  "getitem (Scalar a) i = Inl IndexError"
| "getitem (Struct fs) i = (if i < length fs then Inr (fs ! i) else Inl IndexError)"
| "getitem (NdArray [] xs) i = Inl IndexError"
| "getitem (NdArray [n] xs) i =
     (if i < n \<and> i < length xs then Inr (xs ! i) else Inl IndexError)"
| "getitem (NdArray (n # d # ds) xs) i =
     (if i < n
      then Inr (NdArray (d # ds)
                  (take (prod_list (d # ds)) (drop (i * prod_list (d # ds)) xs)))
      else Inl IndexError)"

text \<open>A chain of subscripts \<^verbatim>\<open>v[i1][i2]...[ik]\<close>, evaluated left to right.\<close>

fun subscripts :: "'a mval \<Rightarrow> nat list \<Rightarrow> error + 'a mval" where
  "subscripts v [] = Inr v"
| "subscripts v (i # rest) =
     (case getitem v i of Inl e \<Rightarrow> Inl e | Inr w \<Rightarrow> subscripts w rest)"

declare subscripts.simps [simp del]

text \<open>
  \<^verbatim>\<open>v[:]\<close>: the whole array, of at least one dimension. Everything else raises IndexError.
\<close>

fun slice_all :: "'a mval \<Rightarrow> error + 'a mval ndarray" where
  "slice_all (NdArray (n # ds) xs) = Inr \<lparr>shape = n # ds, items = xs\<rparr>"
| "slice_all (NdArray [] xs) = Inl IndexError"
| "slice_all (Struct fs) = Inl IndexError"
| "slice_all (Scalar a) = Inl IndexError"

text \<open>\<^verbatim>\<open>a.shape[0]\<close>: the length of the first axis.\<close>

definition shape0 :: "'e ndarray \<Rightarrow> error + nat" where
  "shape0 a = (case shape a of [] \<Rightarrow> Inl IndexError | n # ds \<Rightarrow> Inr n)"

text \<open>
  \<^verbatim>\<open>a.reshape(newshape)\<close>: the same elements under a new shape; numpy raises ValueError
  unless the new shape holds exactly the elements of the array.
\<close>

definition reshape_nd :: "nat list \<Rightarrow> 'e ndarray \<Rightarrow> error + 'e ndarray" where
  "reshape_nd newshape a =
     (if prod_list newshape = size_nd a
      then Inr \<lparr>shape = newshape, items = items a\<rparr>
      else Inl ValueError)"

text \<open>
  \<^verbatim>\<open>a.astype(int)\<close>: every element converted to an integer, in order. The conversion of
  one element is numpy's (the argument \<open>conv\<close>); it may raise, and the first exception
  ends the conversion.
\<close>

fun convert_all :: "('b \<Rightarrow> error + 'c) \<Rightarrow> 'b list \<Rightarrow> error + 'c list" where
  "convert_all f [] = Inr []"
| "convert_all f (x # xs) =
     (case f x of
        Inl e \<Rightarrow> Inl e
      | Inr y \<Rightarrow> (case convert_all f xs of Inl e \<Rightarrow> Inl e | Inr ys \<Rightarrow> Inr (y # ys)))"

definition astype_int ::
  "('a mval \<Rightarrow> error + int) \<Rightarrow> 'a mval ndarray \<Rightarrow> error + int ndarray" where
  "astype_int conv a =
     (case convert_all conv (items a) of
        Inl e \<Rightarrow> Inl e
      | Inr ys \<Rightarrow> Inr \<lparr>shape = shape a, items = ys\<rparr>)"

subsection \<open>Decimal output\<close>

text \<open>\<^verbatim>\<open>'%d' % n\<close> for a natural number and for an integer.\<close>

fun show_nat :: "nat \<Rightarrow> string" where
  "show_nat n =
     (if n < 10 then [char_of (48 + n)]
      else show_nat (n div 10) @ [char_of (48 + n mod 10)])"

declare show_nat.simps [simp del]

definition show_int :: "int \<Rightarrow> string" where
  "show_int i = (if i < 0 then CHR ''-'' # show_nat (nat (- i)) else show_nat (nat i))"

section \<open>The state of a notebook session\<close>

text \<open>
  The callables that the notebook binds to names: its two functions and what it imports
  from sklearn.
\<close>

datatype callable =
    Load_emnist_fn
  | Plt_digit_fn
  | Imported string

text \<open>
  A value bound to a global variable by a cell: an integer, an array read from a file, an
  integer array, an imported module, or a callable.
\<close>

datatype 'a pyval =
    PyInt int
  | PyArr "'a mval ndarray"
  | PyIntArr "int ndarray"
  | PyModule string
  | PyCallable callable

text \<open>
  What matplotlib has been asked to draw so far, in order.
\<close>

datatype 'e plot_event =
    Subplot int int int
  | Imshow "'e ndarray" string
  | XTicks
  | YTicks
  | Title string

text \<open>
  The session: the files on disk (path to contents), the global variables of the kernel,
  the lines printed on standard output, the warnings written to standard error, and the
  plotting calls made so far.
\<close>

record ('f, 'a) session =
  files :: "string \<rightharpoonup> 'f"
  globals :: "string \<rightharpoonup> 'a pyval"
  stdout :: "string list"
  stderr :: "string list"
  figure :: "'a mval plot_event list"

text \<open>
  The parts of the external libraries whose behaviour depends on data the notebook does not
  control. \<^verbatim>\<open>scipy.io.loadmat\<close> reads the file system at a path and returns the parsed
  dict or raises; it may write warnings. \<^verbatim>\<open>astype(int)\<close> converts each element of an
  array, which may raise, and may write warnings for the elements it is given (numpy warns
  when it casts NaN). A call into \<^verbatim>\<open>matplotlib.pyplot\<close> (other than \<^verbatim>\<open>subplot\<close>, see below)
  raises or returns, depending on the call and on what has been drawn. The shell commands
  of the download cell change the files on disk.
\<close>

record ('f, 'a) library =
  loadmat :: "(string \<rightharpoonup> 'f) \<Rightarrow> string \<Rightarrow> error + 'a mat"
  loadmat_warnings :: "(string \<rightharpoonup> 'f) \<Rightarrow> string \<Rightarrow> string list"
  to_int :: "'a mval \<Rightarrow> error + int"
  astype_warnings :: "'a mval list \<Rightarrow> string list"
  pyplot_raises :: "'a mval plot_event \<Rightarrow> 'a mval plot_event list \<Rightarrow> error option"
  wget_unzip :: "(string \<rightharpoonup> 'f) \<Rightarrow> (string \<rightharpoonup> 'f)"

text \<open>
  \<^verbatim>\<open>name.attr\<close> for a module the notebook imports under \<open>name\<close>: NameError when the name
  is not bound, AttributeError when it is bound to anything but that module (no other
  value of a session has the attributes the notebook uses). \<open>None\<close> means that the
  attribute is found.
\<close>

definition use_module :: "string \<Rightarrow> string \<Rightarrow> ('f, 'a) session \<Rightarrow> error option" where
  "use_module name modname s =
     (case globals s name of
        None \<Rightarrow> Some (NameError name)
      | Some (PyModule m) \<Rightarrow> (if m = modname then None else Some AttributeError)
      | Some v \<Rightarrow> Some AttributeError)"

text \<open>Statements one after the other: an exception ends the sequence.\<close>

definition then_run ::
  "('s \<Rightarrow> (error + unit) \<times> 's) \<Rightarrow> ('s \<Rightarrow> (error + unit) \<times> 's) \<Rightarrow> 's \<Rightarrow> (error + unit) \<times> 's" where
  "then_run f g s = (case f s of (Inl e, s') \<Rightarrow> (Inl e, s') | (Inr u, s') \<Rightarrow> g s')"

section \<open>\<^verbatim>\<open>load_emnist\<close>\<close>

text \<open>\<^verbatim>\<open>mat['dataset']\<close>: a missing key raises KeyError.\<close>

definition mat_lookup :: "'a mat \<Rightarrow> string \<Rightarrow> error + 'a mval" where
  "mat_lookup m k = (case m k of None \<Rightarrow> Inl (KeyError k) | Some v \<Rightarrow> Inr v)"

text \<open>
  \<^verbatim>\<open>mat['dataset'][0][0][p][0][0][0][:]\<close> followed by \<^verbatim>\<open>n = X.shape[0]\<close> and
  \<^verbatim>\<open>mat['dataset'][0][0][p][0][0][1][:].reshape(n)\<close>: the feature array, its number of rows
  and the reshaped label array of partition \<open>p\<close>, in the order in which the source evaluates
  them.
\<close>

definition partition_arrays ::
  "'a mat \<Rightarrow> nat \<Rightarrow> error + ('a mval ndarray \<times> nat \<times> 'a mval ndarray)" where
  "partition_arrays m p =
     raise_or (mat_lookup m ''dataset'') (\<lambda>d.
     raise_or (subscripts d [0, 0, p, 0, 0, 0]) (\<lambda>xv.
     raise_or (slice_all xv) (\<lambda>X.
     raise_or (shape0 X) (\<lambda>n.
     raise_or (mat_lookup m ''dataset'') (\<lambda>d'.
     raise_or (subscripts d' [0, 0, p, 0, 0, 1]) (\<lambda>yv.
     raise_or (slice_all yv) (\<lambda>y0.
     raise_or (reshape_nd [n] y0) (\<lambda>y1.
     Inr (X, n, y1)))))))))"

text \<open>
  The three statements of \<^verbatim>\<open>load_emnist\<close> for one partition, ending with
  \<^verbatim>\<open>.astype(int)\<close>: the result (the feature array, its number of rows and the integer
  label vector, or the exception) and the warnings written on the way. \<^verbatim>\<open>load_emnist\<close>
  has these statements twice, with \<open>p = 0\<close> for the training data and \<open>p = 1\<close> for the test
  data.
\<close>

definition load_partition ::
  "('f, 'a) library \<Rightarrow> 'a mat \<Rightarrow> nat \<Rightarrow>
   (error + ('a mval ndarray \<times> nat \<times> int ndarray)) \<times> string list" where
  "load_partition L m p =
     (case partition_arrays m p of
        Inl e \<Rightarrow> (Inl e, [])
      | Inr (X, n, y1) \<Rightarrow>
          (raise_or (astype_int (to_int L) y1) (\<lambda>y. Inr (X, n, y)),
           astype_warnings L (items y1)))"

text \<open>The line printed by \<^verbatim>\<open>load_emnist\<close>.\<close>

definition status_line :: "nat \<Rightarrow> nat \<Rightarrow> string" where
  "status_line ntr nts =
     show_nat ntr @ '' training samples, '' @ show_nat nts @ '' test samples loaded''"

definition default_file_path :: string where
  "default_file_path = ''matlab/emnist-digits.mat''"

definition warn :: "string list \<Rightarrow> ('f, 'a) session \<Rightarrow> ('f, 'a) session" where
  "warn ws s = s\<lparr>stderr := stderr s @ ws\<rparr>"

text \<open>
  The body of \<^verbatim>\<open>load_emnist(file_path='matlab/emnist-digits.mat')\<close>, from the call of
  \<^verbatim>\<open>loadmat\<close> on. The argument is \<open>None\<close> when the caller passes none. The result is the
  list \<^verbatim>\<open>[Xtr, Xts, ytr, yts]\<close>. Warnings of the library calls go to standard error as
  they occur; the status line is printed last.
\<close>

definition load_emnist ::
  "('f, 'a) library \<Rightarrow> string option \<Rightarrow> ('f, 'a) session \<Rightarrow>
   (error + ('a mval ndarray \<times> 'a mval ndarray \<times> int ndarray \<times> int ndarray)) \<times> ('f, 'a) session" where
  "load_emnist L file_path s =
     (let path = (case file_path of None \<Rightarrow> default_file_path | Some p \<Rightarrow> p);
          s0 = warn (loadmat_warnings L (files s) path) s in
      (case loadmat L (files s) path of
         Inl e \<Rightarrow> (Inl e, s0)
       | Inr m \<Rightarrow>
          (case load_partition L m 0 of
             (Inl e, w0) \<Rightarrow> (Inl e, warn w0 s0)
           | (Inr (Xtr, ntr, ytr), w0) \<Rightarrow>
              (case load_partition L m 1 of
                 (Inl e, w1) \<Rightarrow> (Inl e, warn w1 (warn w0 s0))
               | (Inr (Xts, nts, yts), w1) \<Rightarrow>
                  (Inr (Xtr, Xts, ytr, yts),
                   (warn w1 (warn w0 s0))\<lparr>stdout := stdout s @ [status_line ntr nts]\<rparr>)))))"

text \<open>
  A call of the function \<^verbatim>\<open>load_emnist\<close>. Its first statement reads the global
  \<^verbatim>\<open>scipy\<close> (for \<^verbatim>\<open>scipy.io.loadmat\<close>), which the cell that defines the function imports.
\<close>

definition call_load_emnist ::
  "('f, 'a) library \<Rightarrow> string option \<Rightarrow> ('f, 'a) session \<Rightarrow>
   (error + ('a mval ndarray \<times> 'a mval ndarray \<times> int ndarray \<times> int ndarray)) \<times> ('f, 'a) session" where
  "call_load_emnist L file_path s =
     (case use_module ''scipy'' ''scipy'' s of
        Some e \<Rightarrow> (Inl e, s)
      | None \<Rightarrow> load_emnist L file_path s)"

text \<open>
  The expression \<^verbatim>\<open>load_emnist()\<close> or \<^verbatim>\<open>load_emnist(file_path=...)\<close> in a cell: the name is
  looked up in the globals. An unbound name raises NameError. Every other value a session
  can hold raises TypeError when called this way: an integer, an array or a module is not
  callable, \<^verbatim>\<open>plt_digit\<close> lacks its argument \<open>x\<close> (and has no parameter \<^verbatim>\<open>file_path\<close>), and
  the imported sklearn callables lack their required arguments.
\<close>

definition load_emnist_by_name ::
  "('f, 'a) library \<Rightarrow> string option \<Rightarrow> ('f, 'a) session \<Rightarrow>
   (error + ('a mval ndarray \<times> 'a mval ndarray \<times> int ndarray \<times> int ndarray)) \<times> ('f, 'a) session" where
  "load_emnist_by_name L file_path s =
     (case globals s ''load_emnist'' of
        None \<Rightarrow> (Inl (NameError ''load_emnist''), s)
      | Some (PyCallable Load_emnist_fn) \<Rightarrow> call_load_emnist L file_path s
      | Some v \<Rightarrow> (Inl TypeError, s))"

section \<open>\<^verbatim>\<open>plt_digit\<close> and the plotting cell\<close>

text \<open>\<^verbatim>\<open>xsq.T\<close> for an array of \<open>nrow\<close> rows and \<open>ncol\<close> columns, on the row-major elements.\<close>

definition transpose_2d :: "nat \<Rightarrow> nat \<Rightarrow> 'e list \<Rightarrow> 'e list" where
  "transpose_2d nrow ncol xs =
     concat (map (\<lambda>j. map (\<lambda>i. xs ! (i * ncol + j)) [0..<nrow]) [0..<ncol])"

text \<open>
  One call \<^verbatim>\<open>plt.f(...)\<close> of \<^verbatim>\<open>imshow\<close>, \<^verbatim>\<open>xticks\<close>, \<^verbatim>\<open>yticks\<close> or \<^verbatim>\<open>title\<close>: the global
  \<^verbatim>\<open>plt\<close> is looked up, then matplotlib raises or draws. What is drawn is recorded in the
  figure.
\<close>

definition plt_call ::
  "('f, 'a) library \<Rightarrow> 'a mval plot_event \<Rightarrow> ('f, 'a) session \<Rightarrow>
   (error + unit) \<times> ('f, 'a) session" where
  "plt_call L ev s =
     (case use_module ''plt'' ''matplotlib.pyplot'' s of
        Some e \<Rightarrow> (Inl e, s)
      | None \<Rightarrow>
         (case pyplot_raises L ev (figure s) of
            Some e \<Rightarrow> (Inl e, s)
          | None \<Rightarrow> (Inr (), s\<lparr>figure := figure s @ [ev]\<rparr>)))"

text \<open>
  The argument \<open>y\<close> of \<^verbatim>\<open>plt_digit\<close>: \<^verbatim>\<open>None\<close> (the default), an integer label, or a string.
\<close>

datatype label_arg = NoLabel | IntLabel int | StrLabel string

text \<open>
  \<^verbatim>\<open>if y != None: plt.title('%d' % y)\<close>. For a string, \<^verbatim>\<open>'%d' % y\<close> raises TypeError, after
  \<^verbatim>\<open>plt\<close> has been looked up.
\<close>

definition title_if_label ::
  "('f, 'a) library \<Rightarrow> label_arg \<Rightarrow> ('f, 'a) session \<Rightarrow> (error + unit) \<times> ('f, 'a) session" where
  "title_if_label L y s =
     (case y of
        NoLabel \<Rightarrow> (Inr (), s)
      | IntLabel v \<Rightarrow> plt_call L (Title (show_int v)) s
      | StrLabel t \<Rightarrow>
         (case use_module ''plt'' ''matplotlib.pyplot'' s of
            Some e \<Rightarrow> (Inl e, s)
          | None \<Rightarrow> (Inl TypeError, s)))"

text \<open>
  The statements of \<^verbatim>\<open>plt_digit\<close> after the reshape, for the reshaped array \<open>xsq\<close>.
\<close>

definition draw_digit ::
  "('f, 'a) library \<Rightarrow> nat \<Rightarrow> nat \<Rightarrow> 'a mval ndarray \<Rightarrow> label_arg \<Rightarrow> ('f, 'a) session \<Rightarrow>
   (error + unit) \<times> ('f, 'a) session" where
  "draw_digit L nrow ncol xsq y =
     then_run (plt_call L (Imshow \<lparr>shape = [ncol, nrow],
                                   items = transpose_2d nrow ncol (items xsq)\<rparr> ''Greys_r''))
    (then_run (plt_call L XTicks)
    (then_run (plt_call L YTicks)
              (title_if_label L y)))"

text \<open>
  \<^verbatim>\<open>plt_digit(x, y=None)\<close>. The reshape comes first and may raise; then the image is drawn,
  the ticks are removed and the title is set.
\<close>

definition plt_digit ::
  "('f, 'a) library \<Rightarrow> 'a mval ndarray \<Rightarrow> label_arg \<Rightarrow> ('f, 'a) session \<Rightarrow>
   (error + unit) \<times> ('f, 'a) session" where
  "plt_digit L x y s =
     (let nrow = 28; ncol = 28 in
      (case reshape_nd [nrow, ncol] x of
         Inl e \<Rightarrow> (Inl e, s)
       | Inr xsq \<Rightarrow> draw_digit L nrow ncol xsq y s))"

text \<open>
  A call of the function \<^verbatim>\<open>plt_digit\<close>: the positional argument \<open>x\<close> has no default, so a
  call that does not supply it (\<open>None\<close> here) raises TypeError before the body runs.
\<close>

definition call_plt_digit ::
  "('f, 'a) library \<Rightarrow> 'a mval ndarray option \<Rightarrow> label_arg \<Rightarrow> ('f, 'a) session \<Rightarrow>
   (error + unit) \<times> ('f, 'a) session" where
  "call_plt_digit L x y s =
     (case x of None \<Rightarrow> (Inl TypeError, s) | Some a \<Rightarrow> plt_digit L a y s)"

text \<open>
  The expression \<^verbatim>\<open>plt_digit()\<close> in a cell: the name is looked up in the globals. An
  unbound name raises NameError; the function \<^verbatim>\<open>plt_digit\<close> is called without arguments;
  the function \<^verbatim>\<open>load_emnist\<close>, were it bound to this name, would run with its default
  path and its result would be dropped; every other value raises TypeError (not callable,
  or required arguments missing).
\<close>

definition plt_digit_by_name ::
  "('f, 'a) library \<Rightarrow> ('f, 'a) session \<Rightarrow> (error + unit) \<times> ('f, 'a) session" where
  "plt_digit_by_name L s =
     (case globals s ''plt_digit'' of
        None \<Rightarrow> (Inl (NameError ''plt_digit''), s)
      | Some (PyCallable Plt_digit_fn) \<Rightarrow> call_plt_digit L None NoLabel s
      | Some (PyCallable Load_emnist_fn) \<Rightarrow>
         (case call_load_emnist L None s of
            (Inl e, s') \<Rightarrow> (Inl e, s')
          | (Inr r, s') \<Rightarrow> (Inr (), s'))
      | Some v \<Rightarrow> (Inl TypeError, s))"

text \<open>
  \<^verbatim>\<open>plt.subplot(nrows, ncols, index)\<close> of matplotlib: the numbers of rows and columns must
  be positive and the index must lie between 1 and their product; otherwise it raises
  ValueError.
\<close>

definition subplot_args_ok :: "int \<Rightarrow> int \<Rightarrow> int \<Rightarrow> bool" where
  "subplot_args_ok nrows ncols index =
     (0 < nrows \<and> 0 < ncols \<and> 1 \<le> index \<and> index \<le> nrows * ncols)"

definition plt_subplot ::
  "int \<Rightarrow> int \<Rightarrow> int \<Rightarrow> ('f, 'a) session \<Rightarrow> (error + unit) \<times> ('f, 'a) session" where
  "plt_subplot nrows ncols index s =
     (if subplot_args_ok nrows ncols index
      then (Inr (), s\<lparr>figure := figure s @ [Subplot nrows ncols index]\<rparr>)
      else (Inl ValueError, s))"

text \<open>
  \<^verbatim>\<open>for i in xs: body\<close> in general: an exception raised by the body ends the loop.
\<close>

fun for_each ::
  "'i list \<Rightarrow> ('i \<Rightarrow> 's \<Rightarrow> (error + unit) \<times> 's) \<Rightarrow> 's \<Rightarrow> (error + unit) \<times> 's" where
  "for_each [] body s = (Inr (), s)"
| "for_each (i # rest) body s =
     (case body i s of
        (Inl e, s') \<Rightarrow> (Inl e, s')
      | (Inr u, s') \<Rightarrow> for_each rest body s')"

definition range_py :: "nat \<Rightarrow> int list" where
  "range_py n = map int [0..<n]"

text \<open>Assignments to global variables, left to right.\<close>

definition assign :: "string \<Rightarrow> 'a pyval \<Rightarrow> ('f, 'a) session \<Rightarrow> ('f, 'a) session" where
  "assign n v s = s\<lparr>globals := (globals s)(n \<mapsto> v)\<rparr>"

fun assign_all :: "(string \<times> 'a pyval) list \<Rightarrow> ('f, 'a) session \<Rightarrow> ('f, 'a) session" where
  "assign_all [] s = s"
| "assign_all ((n, v) # rest) s = assign_all rest (assign n v s)"

text \<open>
  \<^verbatim>\<open>for v in range(n): body\<close> at the top level of a cell: each iteration first binds the
  global \<open>v\<close> to the next number.
\<close>

definition for_range ::
  "string \<Rightarrow> nat \<Rightarrow> (int \<Rightarrow> ('f, 'a) session \<Rightarrow> (error + unit) \<times> ('f, 'a) session) \<Rightarrow>
   ('f, 'a) session \<Rightarrow> (error + unit) \<times> ('f, 'a) session" where
  "for_range v n body = for_each (range_py n) (\<lambda>i s. body i (assign v (PyInt i) s))"

text \<open>
  The cell that plots the digits:
  \<^verbatim>\<open>for i in range(2): for j in range(4): plt.subplot(i, j, i * 4 + j); plt_digit()\<close>.
  It is given the behaviour of \<^verbatim>\<open>plt.subplot\<close> as an argument; \<^verbatim>\<open>plt\<close> is looked up before
  the call.
\<close>

definition plot_digits ::
  "('f, 'a) library \<Rightarrow>
   (int \<Rightarrow> int \<Rightarrow> int \<Rightarrow> ('f, 'a) session \<Rightarrow> (error + unit) \<times> ('f, 'a) session) \<Rightarrow>
   ('f, 'a) session \<Rightarrow> (error + unit) \<times> ('f, 'a) session" where
  "plot_digits L subplot =
     for_range ''i'' 2 (\<lambda>i.
       for_range ''j'' 4 (\<lambda>j s1.
         (case use_module ''plt'' ''matplotlib.pyplot'' s1 of
            Some e \<Rightarrow> (Inl e, s1)
          | None \<Rightarrow>
             (case subplot i j (i * 4 + j) s1 of
                (Inl e, s2) \<Rightarrow> (Inl e, s2)
              | (Inr u, s2) \<Rightarrow> plt_digit_by_name L s2))))"

section \<open>The code cells\<close>

text \<open>
  The code cells of the notebook in document order. The cells named \<open>Todo_...\<close> hold only
  comments, or nothing.
\<close>

datatype cell =
    Imports
  | Download
  | Def_load_emnist
  | Load_digits
  | Load_letters
  | Def_plt_digit
  | Plot_digits
  | Todo_plot_letters
  | Remove_list
  | Sample_counts
  | Todo_merge
  | Todo_rescale
  | Import_svm
  | Todo_fit
  | Todo_accuracy
  | Import_confusion_matrix
  | Todo_error_rates
  | Todo_combine
  | Todo_predefined_split
  | Import_grid_search
  | Todo_best_params
  | Todo_mean_scores
  | Empty_cell

definition notebook :: "cell list" where
  "notebook =
     [Imports, Download, Def_load_emnist, Load_digits, Load_letters, Def_plt_digit,
      Plot_digits, Todo_plot_letters, Remove_list, Sample_counts, Todo_merge, Todo_rescale,
      Import_svm, Todo_fit, Todo_accuracy, Import_confusion_matrix, Todo_error_rates,
      Todo_combine, Todo_predefined_split, Import_grid_search, Todo_best_params,
      Todo_mean_scores, Empty_cell]"

text \<open>
  \<^verbatim>\<open>A, B, C, D = load_emnist(...)\<close>: the four names are bound only when the call returns.
\<close>

definition load_into ::
  "('f, 'a) library \<Rightarrow> string option \<Rightarrow> string \<Rightarrow> string \<Rightarrow> string \<Rightarrow> string \<Rightarrow>
   ('f, 'a) session \<Rightarrow> (error + unit) \<times> ('f, 'a) session" where
  "load_into L file_path nXtr nXts nytr nyts s =
     (case load_emnist_by_name L file_path s of
        (Inl e, s1) \<Rightarrow> (Inl e, s1)
      | (Inr (Xtr, Xts, ytr, yts), s1) \<Rightarrow>
          (Inr (), assign_all [(nXtr, PyArr Xtr), (nXts, PyArr Xts),
                               (nytr, PyIntArr ytr), (nyts, PyIntArr yts)] s1))"

text \<open>
  One cell. Imports and function definitions bind their names; the download cell runs
  shell commands on the files; a cell of comments changes nothing. A cell that uses a
  name reads it from the globals and raises NameError when it is not bound.
\<close>

fun exec_cell ::
  "('f, 'a) library \<Rightarrow> cell \<Rightarrow> ('f, 'a) session \<Rightarrow> (error + unit) \<times> ('f, 'a) session" where
  "exec_cell L Imports s =
     (Inr (), assign_all [(''np'', PyModule ''numpy''),
                          (''plt'', PyModule ''matplotlib.pyplot''),
                          (''linear_model'', PyModule ''sklearn.linear_model''),
                          (''preprocessing'', PyModule ''sklearn.preprocessing'')] s)"
| "exec_cell L Download s = (Inr (), s\<lparr>files := wget_unzip L (files s)\<rparr>)"
| "exec_cell L Def_load_emnist s =
     (Inr (), assign_all [(''scipy'', PyModule ''scipy''),
                          (''load_emnist'', PyCallable Load_emnist_fn)] s)"
| "exec_cell L Load_digits s =
     load_into L None ''Xtr_dig'' ''Xts_dig'' ''ytr_dig'' ''yts_dig'' s"
| "exec_cell L Load_letters s =
     load_into L (Some ''matlab/emnist-letters.mat'')
       ''Xtr_let'' ''Xts_let'' ''ytr_let'' ''yts_let'' s"
| "exec_cell L Def_plt_digit s =
     (Inr (), assign ''plt_digit'' (PyCallable Plt_digit_fn) s)"
| "exec_cell L Plot_digits s = plot_digits L plt_subplot s"
| "exec_cell L Todo_plot_letters s = (Inr (), s)"
| "exec_cell L Remove_list s =
     (case use_module ''np'' ''numpy'' s of
        Some e \<Rightarrow> (Inl e, s)
      | None \<Rightarrow>
         (Inr (), assign ''remove_list''
                    (PyIntArr \<lparr>shape = [3], items = [9, 12, 15]\<rparr>) s))"
| "exec_cell L Sample_counts s =
     (Inr (), assign_all [(''ntr_dig'', PyInt 5000), (''ntr_let'', PyInt 1000),
                          (''nts_dig'', PyInt 5000), (''nts_let'', PyInt 1000)] s)"
| "exec_cell L Todo_merge s = (Inr (), s)"
| "exec_cell L Todo_rescale s = (Inr (), s)"
| "exec_cell L Import_svm s = (Inr (), assign ''svm'' (PyModule ''sklearn.svm'') s)"
| "exec_cell L Todo_fit s = (Inr (), s)"
| "exec_cell L Todo_accuracy s = (Inr (), s)"
| "exec_cell L Import_confusion_matrix s =
     (Inr (), assign_all
        [(''confusion_matrix'', PyCallable (Imported ''confusion_matrix'')),
         (''ConfusionMatrixDisplay'', PyCallable (Imported ''ConfusionMatrixDisplay''))] s)"
| "exec_cell L Todo_error_rates s = (Inr (), s)"
| "exec_cell L Todo_combine s = (Inr (), s)"
| "exec_cell L Todo_predefined_split s = (Inr (), s)"
| "exec_cell L Import_grid_search s =
     (Inr (), assign ''GridSearchCV'' (PyCallable (Imported ''GridSearchCV'')) s)"
| "exec_cell L Todo_best_params s = (Inr (), s)"
| "exec_cell L Todo_mean_scores s = (Inr (), s)"
| "exec_cell L Empty_cell s = (Inr (), s)"

text \<open>
  Running cells one after the other, each cell of the list once, in the order of the list;
  the first exception stops the run. The list may be any: the person at the keyboard
  chooses the order and may repeat cells.
\<close>

definition run ::
  "('f, 'a) library \<Rightarrow> cell list \<Rightarrow> ('f, 'a) session \<Rightarrow> (error + unit) \<times> ('f, 'a) session" where
  "run L cs s = for_each cs (exec_cell L) s"

text \<open>A new kernel: no variable is bound, nothing has been printed or drawn.\<close>

definition fresh :: "(string \<rightharpoonup> 'f) \<Rightarrow> ('f, 'a) session" where
  "fresh fs = \<lparr>files = fs, globals = Map.empty, stdout = [], stderr = [], figure = []\<rparr>"

text \<open>The global names a cell can bind.\<close>

fun binds :: "cell \<Rightarrow> string list" where
  "binds Imports = [''np'', ''plt'', ''linear_model'', ''preprocessing'']"
| "binds Def_load_emnist = [''scipy'', ''load_emnist'']"
| "binds Load_digits = [''Xtr_dig'', ''Xts_dig'', ''ytr_dig'', ''yts_dig'']"
| "binds Load_letters = [''Xtr_let'', ''Xts_let'', ''ytr_let'', ''yts_let'']"
| "binds Def_plt_digit = [''plt_digit'']"
| "binds Plot_digits = [''i'', ''j'']"
| "binds Remove_list = [''remove_list'']"
| "binds Sample_counts = [''ntr_dig'', ''ntr_let'', ''nts_dig'', ''nts_let'']"
| "binds Import_svm = [''svm'']"
| "binds Import_confusion_matrix = [''confusion_matrix'', ''ConfusionMatrixDisplay'']"
| "binds Import_grid_search = [''GridSearchCV'']"
| "binds c = []"

section \<open>Concrete inputs\<close>

text \<open>
  The layout of an EMNIST file: the variable \<^verbatim>\<open>dataset\<close> is a 1-by-1 struct array whose
  record has the fields \<^verbatim>\<open>train\<close> and \<^verbatim>\<open>test\<close>; each is a 1-by-1 struct array whose record
  has the fields \<^verbatim>\<open>images\<close> and \<^verbatim>\<open>labels\<close>.
\<close>

definition emnist_dataset :: "'a mval \<Rightarrow> 'a mval \<Rightarrow> 'a mval \<Rightarrow> 'a mval \<Rightarrow> 'a mval" where
  "emnist_dataset train_images train_labels test_images test_labels =
     NdArray [1, 1]
       [Struct [NdArray [1, 1] [Struct [train_images, train_labels]],
                NdArray [1, 1] [Struct [test_images, test_labels]]]]"

text \<open>
  A library for files whose contents are given as the dict that \<^verbatim>\<open>loadmat\<close> parses them
  to: a missing path raises FileNotFoundError; scalars are integers already and nothing
  else converts to an integer; no call warns; matplotlib draws whatever it is asked to;
  the download leaves the files as they are.
\<close>

fun int_of_scalar :: "int mval \<Rightarrow> error + int" where
  "int_of_scalar (Scalar i) = Inr i"
| "int_of_scalar (Struct fs) = Inl TypeError"
| "int_of_scalar (NdArray sh xs) = Inl TypeError"

definition parsed_library :: "(int mat, int) library" where
  "parsed_library =
     \<lparr>loadmat = (\<lambda>fs p. case fs p of None \<Rightarrow> Inl FileNotFoundError | Some m \<Rightarrow> Inr m),
      loadmat_warnings = (\<lambda>fs p. []),
      to_int = int_of_scalar,
      astype_warnings = (\<lambda>xs. []),
      pyplot_raises = (\<lambda>ev fig. None),
      wget_unzip = (\<lambda>fs. fs)\<rparr>"

text \<open>
  Two samples of three pixels with the labels 7 and 9 for training, one sample with the
  label 12 for the test.
\<close>

definition small_dataset :: "int mval" where
  "small_dataset =
     emnist_dataset
       (NdArray [2, 3] (map Scalar [0, 255, 0, 17, 0, 3])) (NdArray [2, 1] (map Scalar [7, 9]))
       (NdArray [1, 3] (map Scalar [5, 0, 0])) (NdArray [1, 1] (map Scalar [12]))"

definition small_mat :: "int mat" where
  "small_mat = [''dataset'' \<mapsto> small_dataset]"

text \<open>The same data with one training label missing: two samples, one label.\<close>

definition short_labels_dataset :: "int mval" where
  "short_labels_dataset =
     emnist_dataset
       (NdArray [2, 3] (map Scalar [0, 255, 0, 17, 0, 3])) (NdArray [1, 1] (map Scalar [7]))
       (NdArray [1, 3] (map Scalar [5, 0, 0])) (NdArray [1, 1] (map Scalar [12]))"

definition short_labels_mat :: "int mat" where
  "short_labels_mat = [''dataset'' \<mapsto> short_labels_dataset]"

definition small_files :: "string \<rightharpoonup> int mat" where
  "small_files =
     [''matlab/emnist-digits.mat'' \<mapsto> small_mat, ''matlab/emnist-letters.mat'' \<mapsto> small_mat]"







text \<open>An array of 784 pixels, all zero.\<close>

definition blank_digit :: "int mval ndarray" where
  "blank_digit = \<lparr>shape = [784], items = replicate 784 (Scalar 0)\<rparr>"

text \<open>
  A kernel in which the imports and the two function definitions of the notebook have
  been executed, with the small files on disk.
\<close>

definition started :: "(int mat, int) session" where
  "started =
     snd (run parsed_library [Imports, Def_load_emnist, Def_plt_digit] (fresh small_files))"

section \<open>Basic facts\<close>

lemma raise_or_eq_Inr: "raise_or r f = Inr y \<longleftrightarrow> (\<exists>x. r = Inr x \<and> f x = Inr y)"
  by (cases r) (simp_all add: raise_or_def)


lemma convert_all_length: "convert_all f xs = Inr ys \<Longrightarrow> length ys = length xs"
proof (induction xs arbitrary: ys)
  case Nil
  then show ?case by simp
next
  case (Cons x xs)
  then show ?case by (auto split: sum.splits)
qed

lemma slice_all_Inr:
  "slice_all v = Inr X \<longleftrightarrow>
     (\<exists>n ds xs. v = NdArray (n # ds) xs \<and> X = \<lparr>shape = n # ds, items = xs\<rparr>)"
  by (cases v rule: slice_all.cases) auto

lemma mat_lookup_Inr: "mat_lookup m k = Inr d \<longleftrightarrow> m k = Some d"
  by (simp add: mat_lookup_def split: option.splits)

lemma partition_arrays_returns:
  assumes "m ''dataset'' = Some d"
    and "subscripts d [0, 0, p, 0, 0, 0] = Inr (NdArray (n # ds) xs)"
    and "subscripts d [0, 0, p, 0, 0, 1] = Inr (NdArray (k # ks) ls)"
    and "length ls = n"
  shows "partition_arrays m p =
           Inr (\<lparr>shape = n # ds, items = xs\<rparr>, n, \<lparr>shape = [n], items = ls\<rparr>)"
  using assms
  by (simp add: partition_arrays_def mat_lookup_def raise_or_def shape0_def reshape_nd_def
      size_nd_def)

lemma partition_arrays_result:
  assumes "partition_arrays m p = Inr (X, n, y1)"
  obtains d ds xs k ks ls where
    "m ''dataset'' = Some d"
    "subscripts d [0, 0, p, 0, 0, 0] = Inr (NdArray (n # ds) xs)"
    "X = \<lparr>shape = n # ds, items = xs\<rparr>"
    "subscripts d [0, 0, p, 0, 0, 1] = Inr (NdArray (k # ks) ls)"
    "length ls = n"
    "y1 = \<lparr>shape = [n], items = ls\<rparr>"
proof -
  from assms obtain d xv yv y0 where
    d: "m ''dataset'' = Some d" and
    xv: "subscripts d [0, 0, p, 0, 0, 0] = Inr xv" and
    X0: "slice_all xv = Inr X" and
    n: "shape0 X = Inr n" and
    yv: "subscripts d [0, 0, p, 0, 0, 1] = Inr yv" and
    y0: "slice_all yv = Inr y0" and
    y1: "reshape_nd [n] y0 = Inr y1"
    unfolding partition_arrays_def raise_or_eq_Inr mat_lookup_Inr by auto
  from X0 obtain n' ds xs where
    xv': "xv = NdArray (n' # ds) xs" and X: "X = \<lparr>shape = n' # ds, items = xs\<rparr>"
    by (auto simp: slice_all_Inr)
  from n X have nn: "n' = n" by (simp add: shape0_def)
  from y0 obtain k ks ls where
    yv': "yv = NdArray (k # ks) ls" and y0': "y0 = \<lparr>shape = k # ks, items = ls\<rparr>"
    by (auto simp: slice_all_Inr)
  from y1 y0' have len: "length ls = n" and y1': "y1 = \<lparr>shape = [n], items = ls\<rparr>"
    by (auto simp: reshape_nd_def size_nd_def split: if_splits)
  with that[of d ds xs k ks ls] d xv xv' X nn yv yv' show ?thesis by simp
qed

lemma load_partition_returns:
  assumes "m ''dataset'' = Some d"
    and "subscripts d [0, 0, p, 0, 0, 0] = Inr (NdArray (n # ds) xs)"
    and "subscripts d [0, 0, p, 0, 0, 1] = Inr (NdArray (k # ks) ls)"
    and "length ls = n"
    and "convert_all (to_int L) ls = Inr ys"
  shows "load_partition L m p =
           (Inr (\<lparr>shape = n # ds, items = xs\<rparr>, n, \<lparr>shape = [n], items = ys\<rparr>),
            astype_warnings L ls)"
proof -
  have "partition_arrays m p =
           Inr (\<lparr>shape = n # ds, items = xs\<rparr>, n, \<lparr>shape = [n], items = ls\<rparr>)"
    by (rule partition_arrays_returns[where d = d and k = k and ks = ks]) (rule assms)+
  with assms(5) show ?thesis
    by (simp add: load_partition_def raise_or_def astype_int_def)
qed

lemma load_partition_result:
  assumes "load_partition L m p = (Inr (X, n, y), w)"
  obtains d ds xs k ks ls where
    "m ''dataset'' = Some d"
    "subscripts d [0, 0, p, 0, 0, 0] = Inr (NdArray (n # ds) xs)"
    "X = \<lparr>shape = n # ds, items = xs\<rparr>"
    "subscripts d [0, 0, p, 0, 0, 1] = Inr (NdArray (k # ks) ls)"
    "length ls = n"
    "convert_all (to_int L) ls = Inr (items y)"
    "shape y = [n]"
    "length (items y) = n"
    "w = astype_warnings L ls"
proof -
  from assms obtain y1 where
    pa: "partition_arrays m p = Inr (X, n, y1)" and
    y: "astype_int (to_int L) y1 = Inr y" and
    w: "w = astype_warnings L (items y1)"
    by (auto simp: load_partition_def raise_or_eq_Inr split: sum.splits)
  from pa obtain d ds xs k ks ls where
    f: "m ''dataset'' = Some d"
       "subscripts d [0, 0, p, 0, 0, 0] = Inr (NdArray (n # ds) xs)"
       "X = \<lparr>shape = n # ds, items = xs\<rparr>"
       "subscripts d [0, 0, p, 0, 0, 1] = Inr (NdArray (k # ks) ls)"
       "length ls = n"
       "y1 = \<lparr>shape = [n], items = ls\<rparr>"
    by (rule partition_arrays_result)
  from y f(6) have conv: "convert_all (to_int L) ls = Inr (items y)" and sh: "shape y = [n]"
    by (auto simp: astype_int_def split: sum.splits)
  from convert_all_length[OF conv] f(5) have "length (items y) = n" by simp
  with that[of d ds xs k ks ls] f conv sh w show ?thesis by simp
qed

text \<open>\<^verbatim>\<open>load_emnist\<close> by the results of its library calls.\<close>

lemma load_emnist_cases:
  "load_emnist L fp s =
     (case loadmat L (files s) (case fp of None \<Rightarrow> default_file_path | Some p \<Rightarrow> p) of
        Inl e \<Rightarrow>
          (Inl e,
           warn (loadmat_warnings L (files s)
                   (case fp of None \<Rightarrow> default_file_path | Some p \<Rightarrow> p)) s)
      | Inr m \<Rightarrow>
         (case fst (load_partition L m 0) of
            Inl e \<Rightarrow>
              (Inl e,
               warn (snd (load_partition L m 0))
                 (warn (loadmat_warnings L (files s)
                          (case fp of None \<Rightarrow> default_file_path | Some p \<Rightarrow> p)) s))
          | Inr tr \<Rightarrow>
             (case fst (load_partition L m 1) of
                Inl e \<Rightarrow>
                  (Inl e,
                   warn (snd (load_partition L m 1))
                     (warn (snd (load_partition L m 0))
                        (warn (loadmat_warnings L (files s)
                                 (case fp of None \<Rightarrow> default_file_path | Some p \<Rightarrow> p)) s)))
              | Inr ts \<Rightarrow>
                 (Inr (fst tr, fst ts, snd (snd tr), snd (snd ts)),
                  (warn (snd (load_partition L m 1))
                     (warn (snd (load_partition L m 0))
                        (warn (loadmat_warnings L (files s)
                                 (case fp of None \<Rightarrow> default_file_path | Some p \<Rightarrow> p)) s)))
                  \<lparr>stdout := stdout s @ [status_line (fst (snd tr)) (fst (snd ts))]\<rparr>))))"
  by (simp add: load_emnist_def Let_def split: sum.splits prod.splits)

lemma warn_fields:
  "files (warn ws s) = files s"
  "globals (warn ws s) = globals s"
  "stdout (warn ws s) = stdout s"
  "figure (warn ws s) = figure s"
  "stderr (warn ws s) = stderr s @ ws"
  by (simp_all add: warn_def)

lemma load_emnist_frame:
  "files (snd (load_emnist L fp s)) = files s"
  "globals (snd (load_emnist L fp s)) = globals s"
  "figure (snd (load_emnist L fp s)) = figure s"
  by (simp_all add: load_emnist_cases warn_fields split: sum.splits)



lemma load_emnist_returns_iff:
  "load_emnist L fp s = (Inr (Xtr, Xts, ytr, yts), s') \<longleftrightarrow>
     (\<exists>m ntr nts w0 w1.
        loadmat L (files s) (case fp of None \<Rightarrow> default_file_path | Some p \<Rightarrow> p) = Inr m \<and>
        load_partition L m 0 = (Inr (Xtr, ntr, ytr), w0) \<and>
        load_partition L m 1 = (Inr (Xts, nts, yts), w1) \<and>
        s' = (warn w1 (warn w0 (warn (loadmat_warnings L (files s)
                 (case fp of None \<Rightarrow> default_file_path | Some p \<Rightarrow> p)) s)))
             \<lparr>stdout := stdout s @ [status_line ntr nts]\<rparr>)"
  by (auto simp: load_emnist_def Let_def split: sum.splits prod.splits)

lemma partition_arrays_mismatch:
  assumes "m ''dataset'' = Some d"
    and "subscripts d [0, 0, p, 0, 0, 0] = Inr (NdArray (n # ds) xs)"
    and "subscripts d [0, 0, p, 0, 0, 1] = Inr (NdArray (k # ks) ls)"
    and "length ls \<noteq> n"
  shows "load_partition L m p = (Inl ValueError, [])"
  using assms
  by (simp add: load_partition_def partition_arrays_def mat_lookup_def raise_or_def shape0_def
      reshape_nd_def size_nd_def)

section \<open>Properties of \<^verbatim>\<open>load_emnist\<close>\<close>

lemma small_files_digits:
  "loadmat parsed_library (files (fresh small_files))
     (case None of None \<Rightarrow> default_file_path | Some p \<Rightarrow> p) = Inr small_mat"
  by (simp add: parsed_library_def fresh_def small_files_def default_file_path_def)

lemma emnist_dataset_subscripts:
  "subscripts (emnist_dataset a b c d) [0, 0, 0, 0, 0, 0] = Inr a"
  "subscripts (emnist_dataset a b c d) [0, 0, 0, 0, 0, 1] = Inr b"
  "subscripts (emnist_dataset a b c d) [0, 0, 1, 0, 0, 0] = Inr c"
  "subscripts (emnist_dataset a b c d) [0, 0, 1, 0, 0, 1] = Inr d"
  by (simp_all add: emnist_dataset_def subscripts.simps)

lemma parsed_library_quiet:
  "loadmat_warnings parsed_library fs p = []"
  "astype_warnings parsed_library xs = []"
  "pyplot_raises parsed_library ev fig = None"
  "to_int parsed_library = int_of_scalar"
  by (simp_all add: parsed_library_def)

lemma warn_nothing: "warn [] s = s"
  by (simp add: warn_def)

text \<open>
  Claim C1, as amended. Let the file at the given path parse. If the parsed dict holds the
  variable \<^verbatim>\<open>dataset\<close> with feature arrays at \<^verbatim>\<open>[0][0][p][0][0][0]\<close> and label arrays
  at \<^verbatim>\<open>[0][0][p][0][0][1]\<close> for the partitions \<open>p = 0\<close> and \<open>p = 1\<close>, each label array
  holds as many elements as its feature array has rows, and every label converts to an
  integer, then \<^verbatim>\<open>load_emnist\<close> returns \<^verbatim>\<open>[Xtr, Xts, ytr, yts]\<close>: the feature arrays
  unchanged, the training pair from partition 0 and the test pair from partition 1, each
  label vector one-dimensional, of integers, and as long as its feature array has rows; it
  prints one status line, and what the library calls warn about is on standard error.
  Conversely, whenever \<^verbatim>\<open>load_emnist\<close> returns, the file had this form and the result is
  the one described. Where the label array of the training partition, or that of the test
  partition after a training partition of this form, holds another number of elements
  than the feature array has rows, \<^verbatim>\<open>load_emnist\<close> raises ValueError.
\<close>

theorem load_emnist_matching_labels:
  assumes parse:
    "loadmat L (files s) (case fp of None \<Rightarrow> default_file_path | Some p \<Rightarrow> p) = Inr m"
  shows
    "(\<forall>d ntr dtr xtr ktr str ltr ytr nts dts xts kts sts lts yts.
        m ''dataset'' = Some d \<and>
        subscripts d [0, 0, 0, 0, 0, 0] = Inr (NdArray (ntr # dtr) xtr) \<and>
        subscripts d [0, 0, 0, 0, 0, 1] = Inr (NdArray (ktr # str) ltr) \<and>
        length ltr = ntr \<and>
        convert_all (to_int L) ltr = Inr ytr \<and>
        subscripts d [0, 0, 1, 0, 0, 0] = Inr (NdArray (nts # dts) xts) \<and>
        subscripts d [0, 0, 1, 0, 0, 1] = Inr (NdArray (kts # sts) lts) \<and>
        length lts = nts \<and>
        convert_all (to_int L) lts = Inr yts \<longrightarrow>
        load_emnist L fp s =
          (Inr (\<lparr>shape = ntr # dtr, items = xtr\<rparr>, \<lparr>shape = nts # dts, items = xts\<rparr>,
                \<lparr>shape = [ntr], items = ytr\<rparr>, \<lparr>shape = [nts], items = yts\<rparr>),
           s\<lparr>stderr := stderr s @
                  loadmat_warnings L (files s)
                    (case fp of None \<Rightarrow> default_file_path | Some p \<Rightarrow> p) @
                  astype_warnings L ltr @ astype_warnings L lts,
              stdout := stdout s @ [status_line ntr nts]\<rparr>) \<and>
        length ytr = ntr \<and> length yts = nts) \<and>
     (\<forall>Xtr Xts ytr yts s'.
        load_emnist L fp s = (Inr (Xtr, Xts, ytr, yts), s') \<longrightarrow>
        (\<exists>d ntr dtr ktr str ltr nts dts kts sts lts.
           m ''dataset'' = Some d \<and>
           subscripts d [0, 0, 0, 0, 0, 0] = Inr (NdArray (ntr # dtr) (items Xtr)) \<and>
           shape Xtr = ntr # dtr \<and>
           subscripts d [0, 0, 0, 0, 0, 1] = Inr (NdArray (ktr # str) ltr) \<and>
           length ltr = ntr \<and>
           convert_all (to_int L) ltr = Inr (items ytr) \<and>
           shape ytr = [ntr] \<and> length (items ytr) = ntr \<and>
           subscripts d [0, 0, 1, 0, 0, 0] = Inr (NdArray (nts # dts) (items Xts)) \<and>
           shape Xts = nts # dts \<and>
           subscripts d [0, 0, 1, 0, 0, 1] = Inr (NdArray (kts # sts) lts) \<and>
           length lts = nts \<and>
           convert_all (to_int L) lts = Inr (items yts) \<and>
           shape yts = [nts] \<and> length (items yts) = nts)) \<and>
     (\<forall>d ntr dtr xtr ktr str ltr.
        m ''dataset'' = Some d \<and>
        subscripts d [0, 0, 0, 0, 0, 0] = Inr (NdArray (ntr # dtr) xtr) \<and>
        subscripts d [0, 0, 0, 0, 0, 1] = Inr (NdArray (ktr # str) ltr) \<and>
        length ltr \<noteq> ntr \<longrightarrow>
        fst (load_emnist L fp s) = Inl ValueError) \<and>
     (\<forall>d ntr dtr xtr ktr str ltr ytr nts dts xts kts sts lts.
        m ''dataset'' = Some d \<and>
        subscripts d [0, 0, 0, 0, 0, 0] = Inr (NdArray (ntr # dtr) xtr) \<and>
        subscripts d [0, 0, 0, 0, 0, 1] = Inr (NdArray (ktr # str) ltr) \<and>
        length ltr = ntr \<and>
        convert_all (to_int L) ltr = Inr ytr \<and>
        subscripts d [0, 0, 1, 0, 0, 0] = Inr (NdArray (nts # dts) xts) \<and>
        subscripts d [0, 0, 1, 0, 0, 1] = Inr (NdArray (kts # sts) lts) \<and>
        length lts \<noteq> nts \<longrightarrow>
        fst (load_emnist L fp s) = Inl ValueError)"
proof (intro conjI allI impI)
  fix d ntr dtr xtr ktr str ltr ytr nts dts xts kts sts lts yts
  assume h:
    "m ''dataset'' = Some d \<and>
     subscripts d [0, 0, 0, 0, 0, 0] = Inr (NdArray (ntr # dtr) xtr) \<and>
     subscripts d [0, 0, 0, 0, 0, 1] = Inr (NdArray (ktr # str) ltr) \<and>
     length ltr = ntr \<and>
     convert_all (to_int L) ltr = Inr ytr \<and>
     subscripts d [0, 0, 1, 0, 0, 0] = Inr (NdArray (nts # dts) xts) \<and>
     subscripts d [0, 0, 1, 0, 0, 1] = Inr (NdArray (kts # sts) lts) \<and>
     length lts = nts \<and>
     convert_all (to_int L) lts = Inr yts"
  then have d: "m ''dataset'' = Some d"
    and xtr: "subscripts d [0, 0, 0, 0, 0, 0] = Inr (NdArray (ntr # dtr) xtr)"
    and ltr: "subscripts d [0, 0, 0, 0, 0, 1] = Inr (NdArray (ktr # str) ltr)"
    and ntr: "length ltr = ntr"
    and ytr: "convert_all (to_int L) ltr = Inr ytr"
    and xts: "subscripts d [0, 0, 1, 0, 0, 0] = Inr (NdArray (nts # dts) xts)"
    and lts: "subscripts d [0, 0, 1, 0, 0, 1] = Inr (NdArray (kts # sts) lts)"
    and nts: "length lts = nts"
    and yts: "convert_all (to_int L) lts = Inr yts"
    by (simp_all del: One_nat_def)
  have tr: "load_partition L m 0 =
      (Inr (\<lparr>shape = ntr # dtr, items = xtr\<rparr>, ntr, \<lparr>shape = [ntr], items = ytr\<rparr>),
       astype_warnings L ltr)"
    by (rule load_partition_returns[where d = d and k = ktr and ks = str and ls = ltr])
       (rule d xtr ltr ntr ytr)+
  have ts: "load_partition L m 1 =
      (Inr (\<lparr>shape = nts # dts, items = xts\<rparr>, nts, \<lparr>shape = [nts], items = yts\<rparr>),
       astype_warnings L lts)"
    by (rule load_partition_returns[where d = d and k = kts and ks = sts and ls = lts])
       (rule d xts lts nts yts)+
  show "load_emnist L fp s =
          (Inr (\<lparr>shape = ntr # dtr, items = xtr\<rparr>, \<lparr>shape = nts # dts, items = xts\<rparr>,
                \<lparr>shape = [ntr], items = ytr\<rparr>, \<lparr>shape = [nts], items = yts\<rparr>),
           s\<lparr>stderr := stderr s @
                  loadmat_warnings L (files s)
                    (case fp of None \<Rightarrow> default_file_path | Some p \<Rightarrow> p) @
                  astype_warnings L ltr @ astype_warnings L lts,
              stdout := stdout s @ [status_line ntr nts]\<rparr>)"
    by (simp add: load_emnist_cases parse tr ts warn_def del: One_nat_def)
  show "length ytr = ntr" using convert_all_length[OF ytr] ntr by simp
  show "length yts = nts" using convert_all_length[OF yts] nts by simp
next
  fix Xtr Xts ytr yts s'
  assume r: "load_emnist L fp s = (Inr (Xtr, Xts, ytr, yts), s')"
  then obtain ntr nts w0 w1 where
    tr: "load_partition L m 0 = (Inr (Xtr, ntr, ytr), w0)" and
    ts: "load_partition L m 1 = (Inr (Xts, nts, yts), w1)"
    using parse by (auto simp: load_emnist_returns_iff simp del: One_nat_def)
  from tr obtain d dtr xtr ktr str ltr where
    a: "m ''dataset'' = Some d"
       "subscripts d [0, 0, 0, 0, 0, 0] = Inr (NdArray (ntr # dtr) xtr)"
       "Xtr = \<lparr>shape = ntr # dtr, items = xtr\<rparr>"
       "subscripts d [0, 0, 0, 0, 0, 1] = Inr (NdArray (ktr # str) ltr)"
       "length ltr = ntr"
       "convert_all (to_int L) ltr = Inr (items ytr)"
       "shape ytr = [ntr]" "length (items ytr) = ntr"
    by (rule load_partition_result)
  from ts obtain d' dts xts kts sts lts where
    b: "m ''dataset'' = Some d'"
       "subscripts d' [0, 0, 1, 0, 0, 0] = Inr (NdArray (nts # dts) xts)"
       "Xts = \<lparr>shape = nts # dts, items = xts\<rparr>"
       "subscripts d' [0, 0, 1, 0, 0, 1] = Inr (NdArray (kts # sts) lts)"
       "length lts = nts"
       "convert_all (to_int L) lts = Inr (items yts)"
       "shape yts = [nts]" "length (items yts) = nts"
    by (rule load_partition_result)
  from a(1) b(1) have dd: "d' = d" by simp
  have xi: "items Xtr = xtr" "shape Xtr = ntr # dtr" "items Xts = xts" "shape Xts = nts # dts"
    using a(3) b(3) by simp_all
  show "\<exists>d ntr dtr ktr str ltr nts dts kts sts lts.
           m ''dataset'' = Some d \<and>
           subscripts d [0, 0, 0, 0, 0, 0] = Inr (NdArray (ntr # dtr) (items Xtr)) \<and>
           shape Xtr = ntr # dtr \<and>
           subscripts d [0, 0, 0, 0, 0, 1] = Inr (NdArray (ktr # str) ltr) \<and>
           length ltr = ntr \<and>
           convert_all (to_int L) ltr = Inr (items ytr) \<and>
           shape ytr = [ntr] \<and> length (items ytr) = ntr \<and>
           subscripts d [0, 0, 1, 0, 0, 0] = Inr (NdArray (nts # dts) (items Xts)) \<and>
           shape Xts = nts # dts \<and>
           subscripts d [0, 0, 1, 0, 0, 1] = Inr (NdArray (kts # sts) lts) \<and>
           length lts = nts \<and>
           convert_all (to_int L) lts = Inr (items yts) \<and>
           shape yts = [nts] \<and> length (items yts) = nts"
    apply (rule exI[of _ d], rule exI[of _ ntr], rule exI[of _ dtr], rule exI[of _ ktr],
        rule exI[of _ str], rule exI[of _ ltr], rule exI[of _ nts], rule exI[of _ dts],
        rule exI[of _ kts], rule exI[of _ sts], rule exI[of _ lts])
    apply (intro conjI)
    using a b xi unfolding dd by (simp_all del: One_nat_def)
next
  fix d ntr dtr xtr ktr str ltr
  assume "m ''dataset'' = Some d \<and>
        subscripts d [0, 0, 0, 0, 0, 0] = Inr (NdArray (ntr # dtr) xtr) \<and>
        subscripts d [0, 0, 0, 0, 0, 1] = Inr (NdArray (ktr # str) ltr) \<and>
        length ltr \<noteq> ntr"
  then have d: "m ''dataset'' = Some d"
    and xtr: "subscripts d [0, 0, 0, 0, 0, 0] = Inr (NdArray (ntr # dtr) xtr)"
    and ltr: "subscripts d [0, 0, 0, 0, 0, 1] = Inr (NdArray (ktr # str) ltr)"
    and ntr: "length ltr \<noteq> ntr"
    by (simp_all del: One_nat_def)
  have "load_partition L m 0 = (Inl ValueError, [])"
    by (rule partition_arrays_mismatch[where d = d and k = ktr and ks = str and ls = ltr])
       (rule d xtr ltr ntr)+
  then show "fst (load_emnist L fp s) = Inl ValueError"
    by (simp add: load_emnist_cases parse)
next
  fix d ntr dtr xtr ktr str ltr ytr nts dts xts kts sts lts
  assume "m ''dataset'' = Some d \<and>
        subscripts d [0, 0, 0, 0, 0, 0] = Inr (NdArray (ntr # dtr) xtr) \<and>
        subscripts d [0, 0, 0, 0, 0, 1] = Inr (NdArray (ktr # str) ltr) \<and>
        length ltr = ntr \<and>
        convert_all (to_int L) ltr = Inr ytr \<and>
        subscripts d [0, 0, 1, 0, 0, 0] = Inr (NdArray (nts # dts) xts) \<and>
        subscripts d [0, 0, 1, 0, 0, 1] = Inr (NdArray (kts # sts) lts) \<and>
        length lts \<noteq> nts"
  then have d: "m ''dataset'' = Some d"
    and xtr: "subscripts d [0, 0, 0, 0, 0, 0] = Inr (NdArray (ntr # dtr) xtr)"
    and ltr: "subscripts d [0, 0, 0, 0, 0, 1] = Inr (NdArray (ktr # str) ltr)"
    and ntr: "length ltr = ntr"
    and ytr: "convert_all (to_int L) ltr = Inr ytr"
    and xts: "subscripts d [0, 0, 1, 0, 0, 0] = Inr (NdArray (nts # dts) xts)"
    and lts: "subscripts d [0, 0, 1, 0, 0, 1] = Inr (NdArray (kts # sts) lts)"
    and nts: "length lts \<noteq> nts"
    by (simp_all del: One_nat_def)
  have tr: "load_partition L m 0 =
      (Inr (\<lparr>shape = ntr # dtr, items = xtr\<rparr>, ntr, \<lparr>shape = [ntr], items = ytr\<rparr>),
       astype_warnings L ltr)"
    by (rule load_partition_returns[where d = d and k = ktr and ks = str and ls = ltr])
       (rule d xtr ltr ntr ytr)+
  have ts: "load_partition L m 1 = (Inl ValueError, [])"
    by (rule partition_arrays_mismatch[where d = d and k = kts and ks = sts and ls = lts])
       (rule d xts lts nts)+
  show "fst (load_emnist L fp s) = Inl ValueError"
    by (simp add: load_emnist_cases parse tr ts del: One_nat_def)
qed

text \<open>
  A file with two training samples and one test sample, of three pixels each.
\<close>

theorem load_emnist_matching_labels_witness:
  "load_emnist parsed_library None (fresh small_files) =
     (Inr (\<lparr>shape = [2, 3], items = map Scalar [0, 255, 0, 17, 0, 3]\<rparr>,
           \<lparr>shape = [1, 3], items = map Scalar [5, 0, 0]\<rparr>,
           \<lparr>shape = [2], items = [7, 9]\<rparr>, \<lparr>shape = [1], items = [12]\<rparr>),
      (fresh small_files)\<lparr>stdout := [status_line 2 1]\<rparr>)"
proof -
  note T = load_emnist_matching_labels[OF small_files_digits, THEN conjunct1, rule_format,
      where d = small_dataset and ntr = 2 and dtr = "[3]"
        and xtr = "map Scalar [0, 255, 0, 17, 0, 3]"
        and ktr = 2 and str = "[1]" and ltr = "map Scalar [7, 9]" and ytr = "[7, 9]"
        and nts = 1 and dts = "[3]" and xts = "map Scalar [5, 0, 0]"
        and kts = 1 and sts = "[1]" and lts = "map Scalar [12]" and yts = "[12]"]
  have h: "small_mat ''dataset'' = Some small_dataset \<and>
     subscripts small_dataset [0, 0, 0, 0, 0, 0] =
       Inr (NdArray [2, 3] (map Scalar [0, 255, 0, 17, 0, 3])) \<and>
     subscripts small_dataset [0, 0, 0, 0, 0, 1] = Inr (NdArray [2, 1] (map Scalar [7, 9])) \<and>
     length (map Scalar [7, 9 :: int]) = 2 \<and>
     convert_all (to_int parsed_library) (map Scalar [7, 9]) = Inr [7, 9] \<and>
     subscripts small_dataset [0, 0, 1, 0, 0, 0] = Inr (NdArray [1, 3] (map Scalar [5, 0, 0])) \<and>
     subscripts small_dataset [0, 0, 1, 0, 0, 1] = Inr (NdArray [1, 1] (map Scalar [12])) \<and>
     length (map Scalar [12 :: int]) = 1 \<and>
     convert_all (to_int parsed_library) (map Scalar [12]) = Inr [12]"
    by (simp add: small_mat_def small_dataset_def emnist_dataset_subscripts parsed_library_quiet
        del: One_nat_def)
  from T[OF h, THEN conjunct1] show ?thesis
    by (simp add: fresh_def parsed_library_quiet)
qed

text \<open>
  The claim as stated asks only that the contents parse. The file below parses and is well
  formed, but holds one training label for two training samples: \<^verbatim>\<open>reshape(ntr)\<close> raises
  ValueError and nothing is returned or printed.
\<close>

theorem load_emnist_short_labels_raises:
  "loadmat parsed_library [''matlab/emnist-digits.mat'' \<mapsto> short_labels_mat]
     ''matlab/emnist-digits.mat'' = Inr short_labels_mat \<and>
   wf_mval short_labels_dataset \<and>
   load_emnist parsed_library (Some ''matlab/emnist-digits.mat'')
     (fresh [''matlab/emnist-digits.mat'' \<mapsto> short_labels_mat]) =
     (Inl ValueError, fresh [''matlab/emnist-digits.mat'' \<mapsto> short_labels_mat])"
  by (simp add: load_emnist_def parsed_library_def fresh_def short_labels_mat_def
      short_labels_dataset_def emnist_dataset_def load_partition_def partition_arrays_def
      raise_or_def mat_lookup_def shape0_def
      reshape_nd_def size_nd_def subscripts.simps warn_def)

section \<open>Plotting\<close>

lemma assign_fields:
  "files (assign n v s) = files s"
  "stdout (assign n v s) = stdout s"
  "stderr (assign n v s) = stderr s"
  "figure (assign n v s) = figure s"
  "globals (assign n v s) k = (if k = n then Some v else globals s k)"
  by (simp_all add: assign_def)

lemma assign_all_fields:
  "files (assign_all bs s) = files s"
  "stdout (assign_all bs s) = stdout s"
  "stderr (assign_all bs s) = stderr s"
  "figure (assign_all bs s) = figure s"
  by (induction bs s rule: assign_all.induct) (simp_all add: assign_fields)

lemma assign_all_globals_other:
  "k \<notin> fst ` set bs \<Longrightarrow> globals (assign_all bs s) k = globals s k"
  by (induction bs s rule: assign_all.induct) (auto simp: assign_fields)

lemma use_module_assign_other:
  "n \<noteq> name \<Longrightarrow> use_module name modname (assign n v s) = use_module name modname s"
  by (simp add: use_module_def assign_fields)

lemma use_module_cases:
  "use_module name modname s = None \<longleftrightarrow> globals s name = Some (PyModule modname)"
  "use_module name modname s = Some e \<longrightarrow> e = NameError name \<or> e = AttributeError"
  by (auto simp: use_module_def split: option.splits pyval.splits if_splits)

lemma range_py_2: "range_py 2 = [0, 1]"
  by (simp add: range_py_def upt_rec)

lemma range_py_4: "range_py 4 = [0, 1, 2, 3]"
  by (simp add: range_py_def upt_rec)

lemma call_plt_digit_no_argument: "call_plt_digit L None y s = (Inl TypeError, s)"
  by (simp add: call_plt_digit_def)

text \<open>The first iteration of the plotting loop.\<close>

lemma plot_digits_no_plt:
  "use_module ''plt'' ''matplotlib.pyplot'' s = Some e \<Longrightarrow>
   plot_digits L sp s = (Inl e, assign ''j'' (PyInt 0) (assign ''i'' (PyInt 0) s))"
  by (simp add: plot_digits_def for_range_def range_py_2 range_py_4 use_module_assign_other)

lemma plot_digits_subplot_raises:
  "use_module ''plt'' ''matplotlib.pyplot'' s = None \<Longrightarrow>
   sp 0 0 0 (assign ''j'' (PyInt 0) (assign ''i'' (PyInt 0) s)) = (Inl e, s2) \<Longrightarrow>
   plot_digits L sp s = (Inl e, s2)"
  by (simp add: plot_digits_def for_range_def range_py_2 range_py_4 use_module_assign_other)

lemma plot_digits_call_raises:
  "use_module ''plt'' ''matplotlib.pyplot'' s = None \<Longrightarrow>
   sp 0 0 0 (assign ''j'' (PyInt 0) (assign ''i'' (PyInt 0) s)) = (Inr u, s2) \<Longrightarrow>
   plt_digit_by_name L s2 = (Inl e, s3) \<Longrightarrow>
   plot_digits L sp s = (Inl e, s3)"
  by (simp add: plot_digits_def for_range_def range_py_2 range_py_4 use_module_assign_other)

lemma plt_digit_by_name_raises:
  "globals s ''plt_digit'' \<noteq> Some (PyCallable Load_emnist_fn) \<Longrightarrow>
   \<exists>e. plt_digit_by_name L s = (Inl e, s) \<and> (e = TypeError \<or> e = NameError ''plt_digit'')"
  by (auto simp: plt_digit_by_name_def call_plt_digit_def
      split: option.splits pyval.splits callable.splits)

lemma plot_digits_cell:
  "exec_cell L Plot_digits s =
     (Inl (case use_module ''plt'' ''matplotlib.pyplot'' s of Some e \<Rightarrow> e | None \<Rightarrow> ValueError),
      assign ''j'' (PyInt 0) (assign ''i'' (PyInt 0) s))"
proof (cases "use_module ''plt'' ''matplotlib.pyplot'' s")
  case None
  have "plt_subplot 0 0 0 (assign ''j'' (PyInt 0) (assign ''i'' (PyInt 0) s)) =
      (Inl ValueError, assign ''j'' (PyInt 0) (assign ''i'' (PyInt 0) s))"
    by (simp add: plt_subplot_def subplot_args_ok_def)
  then have "plot_digits L plt_subplot s =
      (Inl ValueError, assign ''j'' (PyInt 0) (assign ''i'' (PyInt 0) s))"
    by (rule plot_digits_subplot_raises[where sp = plt_subplot, OF None])
  with None show ?thesis by simp
next
  case (Some e)
  from plot_digits_no_plt[OF Some] Some show ?thesis by simp
qed

lemma then_run_raises: "f s = (Inl e, s') \<Longrightarrow> then_run f g s = (Inl e, s')"
  by (simp add: then_run_def)

lemma then_run_returns: "f s = (Inr u, s') \<Longrightarrow> then_run f g s = g s'"
  by (simp add: then_run_def)

lemma plt_digit_reshape_raises:
  "reshape_nd [28, 28] x = Inl e \<Longrightarrow> plt_digit L x y s = (Inl e, s)"
  by (simp add: plt_digit_def)

lemma plt_digit_reshape_returns:
  "reshape_nd [28, 28] x = Inr xsq \<Longrightarrow> plt_digit L x y s = draw_digit L 28 28 xsq y s"
  by (simp add: plt_digit_def)

lemma plt_call_draws:
  "use_module ''plt'' ''matplotlib.pyplot'' s = None \<Longrightarrow>
   pyplot_raises L ev (figure s) = None \<Longrightarrow>
   plt_call L ev s = (Inr (), s\<lparr>figure := figure s @ [ev]\<rparr>)"
  by (simp add: plt_call_def)

lemma plt_call_raises:
  "use_module ''plt'' ''matplotlib.pyplot'' s = None \<Longrightarrow>
   pyplot_raises L ev (figure s) = Some e \<Longrightarrow>
   plt_call L ev s = (Inl e, s)"
  by (simp add: plt_call_def)

lemma use_module_figure:
  "use_module name modname (s\<lparr>figure := fig\<rparr>) = use_module name modname s"
  by (simp add: use_module_def)

text \<open>
  What \<^verbatim>\<open>plt_digit\<close> does after the reshape, call by call: the exception of the first call
  that raises is the result, and what the calls before it drew stays in the figure.
\<close>

lemma draw_digit_outcome:
  assumes plt: "use_module ''plt'' ''matplotlib.pyplot'' s = None"
  shows "draw_digit L nrow ncol xsq y s =
     (let img = Imshow \<lparr>shape = [ncol, nrow], items = transpose_2d nrow ncol (items xsq)\<rparr>
                  ''Greys_r''
      in (case pyplot_raises L img (figure s) of
            Some e \<Rightarrow> (Inl e, s)
          | None \<Rightarrow>
             (case pyplot_raises L XTicks (figure s @ [img]) of
                Some e \<Rightarrow> (Inl e, s\<lparr>figure := figure s @ [img]\<rparr>)
              | None \<Rightarrow>
                 (case pyplot_raises L YTicks (figure s @ [img, XTicks]) of
                    Some e \<Rightarrow> (Inl e, s\<lparr>figure := figure s @ [img, XTicks]\<rparr>)
                  | None \<Rightarrow>
                     (case y of
                        NoLabel \<Rightarrow> (Inr (), s\<lparr>figure := figure s @ [img, XTicks, YTicks]\<rparr>)
                      | IntLabel v \<Rightarrow>
                         (case pyplot_raises L (Title (show_int v))
                                 (figure s @ [img, XTicks, YTicks]) of
                            Some e \<Rightarrow> (Inl e, s\<lparr>figure := figure s @ [img, XTicks, YTicks]\<rparr>)
                          | None \<Rightarrow>
                             (Inr (),
                              s\<lparr>figure := figure s @ [img, XTicks, YTicks, Title (show_int v)]\<rparr>))
                      | StrLabel t \<Rightarrow>
                         (Inl TypeError, s\<lparr>figure := figure s @ [img, XTicks, YTicks]\<rparr>))))))"
  using plt
  by (simp add: draw_digit_def then_run_def plt_call_def title_if_label_def use_module_figure
      Let_def split: option.splits label_arg.splits)

text \<open>
  Claim C9. For an array \<open>x\<close> of exactly 784 elements the reshape to 28 by 28 succeeds and
  \<^verbatim>\<open>plt_digit\<close> goes on to draw the reshaped array; where \<^verbatim>\<open>plt\<close> names pyplot, no pyplot
  call raises and the label is not a string, \<^verbatim>\<open>plt_digit\<close> returns and the first thing it
  draws is the 28-by-28 image. For an array of any other size the reshape raises
  ValueError, and so does \<^verbatim>\<open>plt_digit\<close>, with the session unchanged: nothing has been
  drawn.
\<close>

theorem plt_digit_needs_784:
  "(size_nd x = 784 \<longrightarrow>
      reshape_nd [28, 28] x = Inr \<lparr>shape = [28, 28], items = items x\<rparr> \<and>
      plt_digit L x y s = draw_digit L 28 28 \<lparr>shape = [28, 28], items = items x\<rparr> y s) \<and>
   (size_nd x = 784 \<and> use_module ''plt'' ''matplotlib.pyplot'' s = None \<and>
    (\<forall>ev fig. pyplot_raises L ev fig = None) \<and> (\<forall>t. y \<noteq> StrLabel t) \<longrightarrow>
      fst (plt_digit L x y s) = Inr () \<and>
      (\<exists>img. take 1 (drop (length (figure s)) (figure (snd (plt_digit L x y s)))) =
          [Imshow \<lparr>shape = [28, 28], items = img\<rparr> ''Greys_r''])) \<and>
   (size_nd x \<noteq> 784 \<longrightarrow>
      reshape_nd [28, 28] x = Inl ValueError \<and> plt_digit L x y s = (Inl ValueError, s))"
proof (intro conjI impI)
  assume n: "size_nd x = 784"
  then show r: "reshape_nd [28, 28] x = Inr \<lparr>shape = [28, 28], items = items x\<rparr>"
    by (simp add: reshape_nd_def)
  then show "plt_digit L x y s = draw_digit L 28 28 \<lparr>shape = [28, 28], items = items x\<rparr> y s"
    by (rule plt_digit_reshape_returns)
next
  assume h: "size_nd x = 784 \<and> use_module ''plt'' ''matplotlib.pyplot'' s = None \<and>
    (\<forall>ev fig. pyplot_raises L ev fig = None) \<and> (\<forall>t. y \<noteq> StrLabel t)"
  then have r: "reshape_nd [28, 28] x = Inr \<lparr>shape = [28, 28], items = items x\<rparr>"
    by (simp add: reshape_nd_def)
  from h have plt: "use_module ''plt'' ''matplotlib.pyplot'' s = None"
    and quiet: "\<And>ev fig. pyplot_raises L ev fig = None"
    and y: "\<And>t. y \<noteq> StrLabel t"
    by simp_all
  have d: "plt_digit L x y' s = draw_digit L 28 28 \<lparr>shape = [28, 28], items = items x\<rparr> y' s"
    for y'
    using r by (rule plt_digit_reshape_returns)
  show "fst (plt_digit L x y s) = Inr ()"
    using y by (cases y) (auto simp: d draw_digit_outcome[OF plt] quiet)
  show "\<exists>img. take 1 (drop (length (figure s)) (figure (snd (plt_digit L x y s)))) =
          [Imshow \<lparr>shape = [28, 28], items = img\<rparr> ''Greys_r'']"
    using y by (cases y) (auto simp: d draw_digit_outcome[OF plt] quiet)
next
  assume "size_nd x \<noteq> 784"
  then show r: "reshape_nd [28, 28] x = Inl ValueError"
    by (simp add: reshape_nd_def)
  then show "plt_digit L x y s = (Inl ValueError, s)"
    by (rule plt_digit_reshape_raises)
qed

text \<open>
  An image of 784 zeros is drawn with the title 7; an array of three elements is refused.
\<close>

theorem plt_digit_needs_784_witness:
  "reshape_nd [28, 28] \<lparr>shape = [784], items = replicate 784 (Scalar (0::int))\<rparr> =
     Inr \<lparr>shape = [28, 28], items = replicate 784 (Scalar 0)\<rparr> \<and>
   plt_digit parsed_library \<lparr>shape = [3], items = [Scalar 0, Scalar 255, Scalar 0]\<rparr> NoLabel
       (fresh small_files) =
     (Inl ValueError, fresh small_files) \<and>
   fst (plt_digit parsed_library blank_digit (IntLabel 7)
          (snd (exec_cell parsed_library Imports (fresh small_files)))) = Inr ()"
proof -
  have a: "size_nd \<lparr>shape = [784], items = replicate 784 (Scalar (0::int))\<rparr> = 784"
    by (simp add: size_nd_def)
  have b: "size_nd \<lparr>shape = [3], items = [Scalar (0::int), Scalar 255, Scalar 0]\<rparr> \<noteq> 784"
    by (simp add: size_nd_def)
  have c: "size_nd blank_digit = 784 \<and>
      use_module ''plt'' ''matplotlib.pyplot''
        (snd (exec_cell parsed_library Imports (fresh small_files))) = None \<and>
      (\<forall>ev fig. pyplot_raises parsed_library ev fig = None) \<and>
      (\<forall>t. IntLabel 7 \<noteq> StrLabel t)"
    by (simp add: size_nd_def blank_digit_def use_module_def assign_fields parsed_library_quiet)
  from plt_digit_needs_784[THEN conjunct1, rule_format, OF a, THEN conjunct1]
       plt_digit_needs_784[THEN conjunct2, THEN conjunct2, rule_format, OF b, THEN conjunct2]
       plt_digit_needs_784[THEN conjunct2, THEN conjunct1, rule_format, OF c, THEN conjunct1]
  show ?thesis by simp
qed

text \<open>
  Claim C10. The cell that plots the digits raises on every execution, with \<^verbatim>\<open>i\<close> and \<^verbatim>\<open>j\<close>
  bound to 0: NameError or AttributeError where \<^verbatim>\<open>plt\<close> does not name pyplot, and otherwise
  the ValueError of \<^verbatim>\<open>plt.subplot(0, 0, 0)\<close>, whose arguments matplotlib rejects. Whatever
  \<^verbatim>\<open>plt.subplot\<close> did with these arguments, the cell would raise in its first iteration:
  the exception of \<^verbatim>\<open>plt.subplot(0, 0, 0)\<close>, or that of the call \<^verbatim>\<open>plt_digit()\<close>, which is
  NameError where \<^verbatim>\<open>plt_digit\<close> is unbound and TypeError otherwise, the call omitting the
  required argument \<open>x\<close> (\<^verbatim>\<open>plt_digit\<close> not having been rebound to \<^verbatim>\<open>load_emnist\<close>, which can
  be called without arguments).
\<close>

theorem plot_digits_cell_raises:
  "(\<exists>e. exec_cell L Plot_digits s =
          (Inl e, assign ''j'' (PyInt 0) (assign ''i'' (PyInt 0) s)) \<and>
        (e = NameError ''plt'' \<or> e = AttributeError \<or> e = ValueError)) \<and>
   (globals s ''plt'' = Some (PyModule ''matplotlib.pyplot'') \<longrightarrow>
      exec_cell L Plot_digits s =
        (Inl ValueError, assign ''j'' (PyInt 0) (assign ''i'' (PyInt 0) s))) \<and>
   \<not> subplot_args_ok 0 0 0 \<and>
   ((\<forall>u s2. sp 0 0 0 (assign ''j'' (PyInt 0) (assign ''i'' (PyInt 0) s)) = (Inr u, s2) \<longrightarrow>
        globals s2 ''plt_digit'' \<noteq> Some (PyCallable Load_emnist_fn)) \<longrightarrow>
    (\<exists>e s'. plot_digits L sp s = (Inl e, s') \<and>
       (e = NameError ''plt'' \<or> e = AttributeError \<or>
        sp 0 0 0 (assign ''j'' (PyInt 0) (assign ''i'' (PyInt 0) s)) = (Inl e, s') \<or>
        (sp 0 0 0 (assign ''j'' (PyInt 0) (assign ''i'' (PyInt 0) s)) = (Inr (), s') \<and>
         (e = TypeError \<or> e = NameError ''plt_digit''))))) \<and>
   call_plt_digit L None y s = (Inl TypeError, s)"
proof (intro conjI impI)
  show "\<exists>e. exec_cell L Plot_digits s =
          (Inl e, assign ''j'' (PyInt 0) (assign ''i'' (PyInt 0) s)) \<and>
        (e = NameError ''plt'' \<or> e = AttributeError \<or> e = ValueError)"
    using use_module_cases(2)[of "''plt''" "''matplotlib.pyplot''" s]
    by (auto simp: plot_digits_cell simp del: exec_cell.simps split: option.splits)
next
  assume "globals s ''plt'' = Some (PyModule ''matplotlib.pyplot'')"
  then have "use_module ''plt'' ''matplotlib.pyplot'' s = None"
    by (simp add: use_module_cases)
  then show "exec_cell L Plot_digits s =
        (Inl ValueError, assign ''j'' (PyInt 0) (assign ''i'' (PyInt 0) s))"
    by (simp add: plot_digits_cell del: exec_cell.simps)
next
  show "\<not> subplot_args_ok 0 0 0" by (simp add: subplot_args_ok_def)
next
  let ?s1 = "assign ''j'' (PyInt 0) (assign ''i'' (PyInt 0) s)"
  assume h: "\<forall>u s2. sp 0 0 0 ?s1 = (Inr u, s2) \<longrightarrow>
        globals s2 ''plt_digit'' \<noteq> Some (PyCallable Load_emnist_fn)"
  show "\<exists>e s'. plot_digits L sp s = (Inl e, s') \<and>
       (e = NameError ''plt'' \<or> e = AttributeError \<or>
        sp 0 0 0 ?s1 = (Inl e, s') \<or>
        (sp 0 0 0 ?s1 = (Inr (), s') \<and> (e = TypeError \<or> e = NameError ''plt_digit'')))"
  proof (cases "use_module ''plt'' ''matplotlib.pyplot'' s")
    case (Some e)
    have "plot_digits L sp s = (Inl e, ?s1)"
      using Some by (rule plot_digits_no_plt)
    with use_module_cases(2)[of "''plt''" "''matplotlib.pyplot''" s e] Some
    show ?thesis by auto
  next
    case None
    obtain r s2 where sp: "sp 0 0 0 ?s1 = (r, s2)" by (cases "sp 0 0 0 ?s1") auto
    show ?thesis
    proof (cases r)
      case (Inl e)
      with sp have sp': "sp 0 0 0 ?s1 = (Inl e, s2)" by simp
      have "plot_digits L sp s = (Inl e, s2)"
        using None sp' by (rule plot_digits_subplot_raises)
      with sp' show ?thesis by auto
    next
      case (Inr u)
      with sp h have "globals s2 ''plt_digit'' \<noteq> Some (PyCallable Load_emnist_fn)" by blast
      from plt_digit_by_name_raises[OF this, of L] obtain e where
        e: "plt_digit_by_name L s2 = (Inl e, s2)" "e = TypeError \<or> e = NameError ''plt_digit''"
        by blast
      from sp Inr have sp': "sp 0 0 0 ?s1 = (Inr u, s2)" by simp
      have "plot_digits L sp s = (Inl e, s2)"
        using None sp' e(1) by (rule plot_digits_call_raises)
      with e(2) sp' show ?thesis by auto
    qed
  qed
next
  show "call_plt_digit L None y s = (Inl TypeError, s)"
    by (rule call_plt_digit_no_argument)
qed

text \<open>
  After the imports and the definition of \<^verbatim>\<open>plt_digit\<close>, with a \<^verbatim>\<open>plt.subplot\<close> that accepts
  every argument and with the one of matplotlib.
\<close>

theorem plot_digits_cell_raises_witness:
  "plot_digits parsed_library (\<lambda>nrows ncols index s. (Inr (), s))
     (snd (run parsed_library [Imports, Def_plt_digit] (fresh small_files))) \<noteq>
   (Inr (), snd (run parsed_library [Imports, Def_plt_digit] (fresh small_files))) \<and>
   exec_cell parsed_library Plot_digits
     (snd (run parsed_library [Imports, Def_plt_digit] (fresh small_files))) =
   (Inl ValueError,
    assign ''j'' (PyInt 0) (assign ''i'' (PyInt 0)
      (snd (run parsed_library [Imports, Def_plt_digit] (fresh small_files)))))"
proof -
  let ?s = "snd (run parsed_library [Imports, Def_plt_digit] (fresh small_files))
            :: (int mat, int) session"
  let ?sp = "\<lambda>(nrows::int) (ncols::int) (index::int) (s::(int mat, int) session).
               (Inr () :: error + unit, s)"
  have g: "globals ?s ''plt'' = Some (PyModule ''matplotlib.pyplot'')"
    "globals ?s ''plt_digit'' = Some (PyCallable Plt_digit_fn)"
    by (simp_all add: run_def assign_fields)
  have h: "\<forall>u s2. ?sp 0 0 0 (assign ''j'' (PyInt 0) (assign ''i'' (PyInt 0) ?s)) = (Inr u, s2) \<longrightarrow>
        globals s2 ''plt_digit'' \<noteq> Some (PyCallable Load_emnist_fn)"
    using g(2) by (auto simp: assign_fields)
  note T = plot_digits_cell_raises[of parsed_library ?s ?sp NoLabel]
  from T[THEN conjunct2, THEN conjunct2, THEN conjunct2, THEN conjunct1, THEN mp, OF h]
  have 1: "plot_digits parsed_library ?sp ?s \<noteq> (Inr (), ?s)" by auto
  from T[THEN conjunct2, THEN conjunct1, rule_format, OF g(1)]
  have 2: "exec_cell parsed_library Plot_digits ?s =
    (Inl ValueError, assign ''j'' (PyInt 0) (assign ''i'' (PyInt 0) ?s))" .
  from 1 2 show ?thesis by blast
qed

section \<open>Exceptions\<close>






lemma call_load_emnist_frame:
  "files (snd (call_load_emnist L fp s)) = files s"
  "globals (snd (call_load_emnist L fp s)) = globals s"
  "figure (snd (call_load_emnist L fp s)) = figure s"
  by (simp_all add: call_load_emnist_def load_emnist_frame split: option.splits)



lemma load_emnist_by_name_frame:
  "files (snd (load_emnist_by_name L fp s)) = files s"
  "globals (snd (load_emnist_by_name L fp s)) = globals s"
  "figure (snd (load_emnist_by_name L fp s)) = figure s"
  by (simp_all add: load_emnist_by_name_def call_load_emnist_frame
      split: option.splits pyval.splits callable.splits)


lemma load_into_raises:
  "load_emnist_by_name L fp s = (Inl e, s') \<Longrightarrow> load_into L fp a b c d s = (Inl e, s')"
  by (simp add: load_into_def)


lemma run_Nil: "run L [] s = (Inr (), s)"
  by (simp add: run_def)

lemma run_Cons:
  "run L (c # cs) s =
     (case exec_cell L c s of (Inl e, s') \<Rightarrow> (Inl e, s') | (Inr u, s') \<Rightarrow> run L cs s')"
  unfolding run_def by simp






lemma files_fresh:
  "files (fresh fs) = fs" "globals (fresh fs) = Map.empty" "stdout (fresh fs) = []"
  "stderr (fresh fs) = []" "figure (fresh fs) = []"
  by (simp_all add: fresh_def)

lemma started_session:
  "started =
     assign ''plt_digit'' (PyCallable Plt_digit_fn)
       (assign_all [(''scipy'', PyModule ''scipy''),
                    (''load_emnist'', PyCallable Load_emnist_fn)]
         (assign_all [(''np'', PyModule ''numpy''),
                      (''plt'', PyModule ''matplotlib.pyplot''),
                      (''linear_model'', PyModule ''sklearn.linear_model''),
                      (''preprocessing'', PyModule ''sklearn.preprocessing'')]
           (fresh small_files)))"
  by (simp add: started_def run_Cons run_Nil)

lemma started_fields:
  "files started = small_files"
  "stdout started = []"
  "stderr started = []"
  "figure started = []"
  "globals started ''plt'' = Some (PyModule ''matplotlib.pyplot'')"
  "globals started ''np'' = Some (PyModule ''numpy'')"
  "globals started ''scipy'' = Some (PyModule ''scipy'')"
  "globals started ''load_emnist'' = Some (PyCallable Load_emnist_fn)"
  "globals started ''plt_digit'' = Some (PyCallable Plt_digit_fn)"
  "globals started ''i'' = None"
  "globals started ''j'' = None"
  by (simp_all add: started_session assign_fields assign_all_fields files_fresh)

lemma load_emnist_small_files:
  assumes "files s = small_files"
    and "fp = None \<or> fp = Some ''matlab/emnist-letters.mat''"
  shows "load_emnist parsed_library fp s =
     (Inr (\<lparr>shape = [2, 3], items = map Scalar [0, 255, 0, 17, 0, 3]\<rparr>,
           \<lparr>shape = [1, 3], items = map Scalar [5, 0, 0]\<rparr>,
           \<lparr>shape = [2], items = [7, 9]\<rparr>, \<lparr>shape = [1], items = [12]\<rparr>),
      s\<lparr>stdout := stdout s @ [status_line 2 1]\<rparr>)"
proof -
  have p: "loadmat parsed_library (files s)
      (case fp of None \<Rightarrow> default_file_path | Some p \<Rightarrow> p) = Inr small_mat"
    using assms
    by (auto simp: parsed_library_def small_files_def default_file_path_def)
  have tr: "load_partition parsed_library small_mat 0 =
      (Inr (\<lparr>shape = [2, 3], items = map Scalar [0, 255, 0, 17, 0, 3]\<rparr>, 2,
           \<lparr>shape = [2], items = [7, 9]\<rparr>), astype_warnings parsed_library (map Scalar [7, 9]))"
    by (rule load_partition_returns[where d = small_dataset and k = 2 and ks = "[1]"
          and ls = "map Scalar [7, 9]"])
       (simp_all add: small_mat_def small_dataset_def emnist_dataset_subscripts
          parsed_library_quiet del: One_nat_def)
  have ts: "load_partition parsed_library small_mat 1 =
      (Inr (\<lparr>shape = [1, 3], items = map Scalar [5, 0, 0]\<rparr>, 1,
           \<lparr>shape = [1], items = [12]\<rparr>), astype_warnings parsed_library (map Scalar [12]))"
    by (rule load_partition_returns[where d = small_dataset and k = 1 and ks = "[1]"
          and ls = "map Scalar [12]"])
       (simp_all add: small_mat_def small_dataset_def emnist_dataset_subscripts
          parsed_library_quiet del: One_nat_def)
  show ?thesis
    by (simp add: load_emnist_cases p tr ts parsed_library_quiet warn_nothing
        del: One_nat_def)
qed

lemma load_into_small_files:
  assumes "files s = small_files"
    and "fp = None \<or> fp = Some ''matlab/emnist-letters.mat''"
    and "globals s ''load_emnist'' = Some (PyCallable Load_emnist_fn)"
    and "globals s ''scipy'' = Some (PyModule ''scipy'')"
  shows "load_into parsed_library fp a b c d s =
     (Inr (), assign_all
        [(a, PyArr \<lparr>shape = [2, 3], items = map Scalar [0, 255, 0, 17, 0, 3]\<rparr>),
         (b, PyArr \<lparr>shape = [1, 3], items = map Scalar [5, 0, 0]\<rparr>),
         (c, PyIntArr \<lparr>shape = [2], items = [7, 9]\<rparr>),
         (d, PyIntArr \<lparr>shape = [1], items = [12]\<rparr>)]
        (s\<lparr>stdout := stdout s @ [status_line 2 1]\<rparr>))"
  using assms
  by (simp add: load_into_def load_emnist_by_name_def call_load_emnist_def use_module_def
      load_emnist_small_files)



section \<open>Effects of \<^verbatim>\<open>load_emnist\<close>\<close>




section \<open>The steps after loading\<close>

lemma load_into_globals_other:
  assumes "k \<noteq> a" "k \<noteq> b" "k \<noteq> c" "k \<noteq> d"
  shows "globals (snd (load_into L fp a b c d s)) k = globals s k"
proof (cases "load_emnist_by_name L fp s")
  case (Pair r s1)
  have g: "globals s1 = globals s"
    using load_emnist_by_name_frame(2)[of L fp s] Pair by simp
  show ?thesis
  proof (cases r)
    case (Inl e)
    with Pair g show ?thesis by (simp add: load_into_def)
  next
    case (Inr t)
    obtain Xtr Xts ytr yts where t: "t = (Xtr, Xts, ytr, yts)" by (cases t) auto
    from Pair Inr t g assms show ?thesis
      by (simp add: load_into_def assign_fields)
  qed
qed

lemma exec_cell_globals_other:
  "k \<notin> set (binds c) \<Longrightarrow> globals (snd (exec_cell L c s)) k = globals s k"
proof (cases c)
  case Load_digits
  assume "k \<notin> set (binds c)"
  with Load_digits show ?thesis by (simp add: load_into_globals_other)
next
  case Load_letters
  assume "k \<notin> set (binds c)"
  with Load_letters show ?thesis by (simp add: load_into_globals_other)
next
  case Plot_digits
  assume "k \<notin> set (binds c)"
  with Plot_digits show ?thesis
    by (simp add: plot_digits_cell assign_fields del: exec_cell.simps)
next
  case Remove_list
  assume "k \<notin> set (binds c)"
  with Remove_list show ?thesis
    by (simp add: assign_fields split: option.splits)
qed (auto simp: assign_fields)

lemma run_globals_other:
  "(\<And>c. c \<in> set cs \<Longrightarrow> k \<notin> set (binds c)) \<Longrightarrow> globals (snd (run L cs s)) k = globals s k"
proof (induction cs arbitrary: s)
  case Nil
  show ?case by (simp add: run_def)
next
  case (Cons c cs)
  have step: "globals (snd (exec_cell L c s)) k = globals s k"
    by (rule exec_cell_globals_other) (simp add: Cons.prems)
  obtain r s1 where e: "exec_cell L c s = (r, s1)" by (cases "exec_cell L c s") auto
  show ?case
  proof (cases r)
    case (Inl err)
    with e step show ?thesis by (simp add: run_def)
  next
    case (Inr u)
    have "globals (snd (run L cs s1)) k = globals s1 k"
      by (rule Cons.IH) (simp add: Cons.prems)
    with e Inr step show ?thesis by (simp add: run_def)
  qed
qed

text \<open>Every name that a cell binds is bound by a cell of the notebook.\<close>

lemma binds_names:
  "set (binds c) \<subseteq> set (concat (map binds notebook))"
  by (cases c) (simp_all add: notebook_def)

lemma run_never_binds:
  assumes "k \<notin> set (concat (map binds notebook))"
  shows "globals (snd (run L cs s)) k = globals s k"
proof (rule run_globals_other)
  fix c
  from assms binds_names[of c] show "k \<notin> set (binds c)" by blast
qed

text \<open>A run that reaches the plotting cell ends there.\<close>

lemma run_append:
  "run L (xs @ ys) s =
     (case run L xs s of (Inl e, s') \<Rightarrow> (Inl e, s') | (Inr u, s') \<Rightarrow> run L ys s')"
  by (induction xs arbitrary: s) (auto simp: run_Nil run_Cons split: prod.splits sum.splits)


text \<open>
  Claim C4, as amended. Where \<^verbatim>\<open>np\<close> names numpy, the filter cell only binds
  \<^verbatim>\<open>remove_list\<close> to the array \<open>[9, 12, 15]\<close>, the labels of the classes i/I, l/L and o/O;
  it returns exactly then, and where \<^verbatim>\<open>np\<close> is unbound it raises NameError and binds
  nothing. It leaves the letter arrays as they are, and no cell of the notebook, in any
  run, binds \<^verbatim>\<open>Xtr_let_rem\<close>, \<^verbatim>\<open>ytr_let_rem\<close>, \<^verbatim>\<open>Xts_let_rem\<close> or \<^verbatim>\<open>yts_let_rem\<close>: the
  removal itself is left as an exercise (\<^verbatim>\<open># TODO\<close>).
\<close>

theorem remove_list_cell:
  "(globals s ''np'' = Some (PyModule ''numpy'') \<longrightarrow>
      exec_cell L Remove_list s =
        (Inr (), s\<lparr>globals := (globals s)(''remove_list'' \<mapsto>
                    PyIntArr \<lparr>shape = [3], items = [9, 12, 15]\<rparr>)\<rparr>)) \<and>
   (globals s ''np'' = None \<longrightarrow>
      exec_cell L Remove_list s = (Inl (NameError ''np''), s)) \<and>
   (fst (exec_cell L Remove_list s) = Inr () \<longleftrightarrow>
      globals s ''np'' = Some (PyModule ''numpy'')) \<and>
   (\<forall>e. fst (exec_cell L Remove_list s) = Inl e \<longrightarrow>
      snd (exec_cell L Remove_list s) = s \<and> (e = NameError ''np'' \<or> e = AttributeError)) \<and>
   globals (snd (exec_cell L Remove_list s)) ''Xtr_let'' = globals s ''Xtr_let'' \<and>
   globals (snd (exec_cell L Remove_list s)) ''ytr_let'' = globals s ''ytr_let'' \<and>
   globals (snd (exec_cell L Remove_list s)) ''Xts_let'' = globals s ''Xts_let'' \<and>
   globals (snd (exec_cell L Remove_list s)) ''yts_let'' = globals s ''yts_let'' \<and>
   globals (snd (run L cs s)) ''Xtr_let_rem'' = globals s ''Xtr_let_rem'' \<and>
   globals (snd (run L cs s)) ''ytr_let_rem'' = globals s ''ytr_let_rem'' \<and>
   globals (snd (run L cs s)) ''Xts_let_rem'' = globals s ''Xts_let_rem'' \<and>
   globals (snd (run L cs s)) ''yts_let_rem'' = globals s ''yts_let_rem''"
proof -
  have bound: "globals s ''np'' = Some (PyModule ''numpy'') \<longrightarrow>
      exec_cell L Remove_list s =
        (Inr (), s\<lparr>globals := (globals s)(''remove_list'' \<mapsto>
                    PyIntArr \<lparr>shape = [3], items = [9, 12, 15]\<rparr>)\<rparr>)"
    by (simp add: use_module_def assign_def)
  have unbound: "globals s ''np'' = None \<longrightarrow>
      exec_cell L Remove_list s = (Inl (NameError ''np''), s)"
    by (simp add: use_module_def)
  have returns: "fst (exec_cell L Remove_list s) = Inr () \<longleftrightarrow>
      globals s ''np'' = Some (PyModule ''numpy'')"
    by (auto simp: use_module_def split: option.splits pyval.splits if_splits)
  have raises: "\<forall>e. fst (exec_cell L Remove_list s) = Inl e \<longrightarrow>
      snd (exec_cell L Remove_list s) = s \<and> (e = NameError ''np'' \<or> e = AttributeError)"
    by (auto simp: use_module_def split: option.splits pyval.splits if_splits)
  have letters: "globals (snd (exec_cell L Remove_list s)) k = globals s k"
    if "k \<in> {''Xtr_let'', ''ytr_let'', ''Xts_let'', ''yts_let''}" for k
    by (rule exec_cell_globals_other) (use that in auto)
  have filtered: "globals (snd (run L cs s)) k = globals s k"
    if "k \<in> {''Xtr_let_rem'', ''ytr_let_rem'', ''Xts_let_rem'', ''yts_let_rem''}" for k
    by (rule run_never_binds) (use that in \<open>auto simp: notebook_def\<close>)
  show ?thesis
    apply (intro conjI)
               apply (rule bound)
              apply (rule unbound)
             apply (rule returns)
            apply (rule raises)
           apply (rule letters, simp)+
       apply (rule filtered, simp)+
    done
qed

text \<open>
  After the imports the filter cell binds \<^verbatim>\<open>remove_list\<close>; in a new kernel it raises.
\<close>

theorem remove_list_cell_witness:
  "exec_cell parsed_library Remove_list started =
     (Inr (), started\<lparr>globals := (globals started)(''remove_list'' \<mapsto>
                 PyIntArr \<lparr>shape = [3], items = [9, 12, 15]\<rparr>)\<rparr>) \<and>
   globals started ''np'' = Some (PyModule ''numpy'') \<and>
   exec_cell parsed_library Remove_list (fresh small_files) =
     (Inl (NameError ''np''), fresh small_files)"
proof -
  have a: "exec_cell parsed_library Remove_list started =
     (Inr (), started\<lparr>globals := (globals started)(''remove_list'' \<mapsto>
                 PyIntArr \<lparr>shape = [3], items = [9, 12, 15]\<rparr>)\<rparr>)"
    using remove_list_cell[of started parsed_library "[]", THEN conjunct1]
      started_fields(6) by (rule mp)
  have b: "exec_cell parsed_library Remove_list (fresh small_files) =
     (Inl (NameError ''np''), fresh small_files)"
    using remove_list_cell[of "fresh small_files" parsed_library "[]", THEN conjunct2,
        THEN conjunct1]
    by (simp add: files_fresh)
  from a b started_fields(6) show ?thesis by simp
qed

text \<open>
  After the imports, the definition of \<^verbatim>\<open>load_emnist\<close>, loading letters with the labels
  7, 9 (training) and 12 (test) and running the filter cell, the samples labelled 9 and 12
  are still in the letter arrays and no filtered array exists.
\<close>

theorem remove_list_cell_small_files:
  "fst (run parsed_library [Imports, Def_load_emnist, Load_letters, Remove_list]
          (fresh small_files)) = Inr () \<and>
   globals (snd (run parsed_library [Imports, Def_load_emnist, Load_letters, Remove_list]
          (fresh small_files)))
     ''remove_list'' = Some (PyIntArr \<lparr>shape = [3], items = [9, 12, 15]\<rparr>) \<and>
   globals (snd (run parsed_library [Imports, Def_load_emnist, Load_letters, Remove_list]
          (fresh small_files)))
     ''ytr_let'' = Some (PyIntArr \<lparr>shape = [2], items = [7, 9]\<rparr>) \<and>
   globals (snd (run parsed_library [Imports, Def_load_emnist, Load_letters, Remove_list]
          (fresh small_files)))
     ''yts_let'' = Some (PyIntArr \<lparr>shape = [1], items = [12]\<rparr>) \<and>
   globals (snd (run parsed_library [Imports, Def_load_emnist, Load_letters, Remove_list]
          (fresh small_files)))
     ''Xtr_let_rem'' = None \<and>
   globals (snd (run parsed_library [Imports, Def_load_emnist, Load_letters, Remove_list]
          (fresh small_files)))
     ''ytr_let_rem'' = None \<and>
   globals (snd (run parsed_library [Imports, Def_load_emnist, Load_letters, Remove_list]
          (fresh small_files)))
     ''Xts_let_rem'' = None \<and>
   globals (snd (run parsed_library [Imports, Def_load_emnist, Load_letters, Remove_list]
          (fresh small_files)))
     ''yts_let_rem'' = None"
  by (simp add: run_Cons run_Nil load_into_small_files files_fresh assign_fields
      assign_all_fields use_module_def)

text \<open>
  Claim C5, as amended. The subsampling cell only fixes the four counts: it binds
  \<^verbatim>\<open>ntr_dig = 5000\<close>, \<^verbatim>\<open>ntr_let = 1000\<close>, \<^verbatim>\<open>nts_dig = 5000\<close> and \<^verbatim>\<open>nts_let = 1000\<close>, which
  add up to 6000 for training and 6000 for the test. It draws no samples: no cell of the
  notebook, in any run, binds one of the eight subsampled arrays (\<^verbatim>\<open>Xtr1_dig\<close>,
  \<^verbatim>\<open>ytr1_dig\<close>, \<^verbatim>\<open>Xts1_dig\<close>, \<^verbatim>\<open>yts1_dig\<close>, \<^verbatim>\<open>Xtr1_let\<close>, \<^verbatim>\<open>ytr1_let\<close>, \<^verbatim>\<open>Xts1_let\<close>,
  \<^verbatim>\<open>yts1_let\<close>).
\<close>

theorem sample_counts_cell:
  "fst (exec_cell L Sample_counts s) = Inr () \<and>
   globals (snd (exec_cell L Sample_counts s)) ''ntr_dig'' = Some (PyInt 5000) \<and>
   globals (snd (exec_cell L Sample_counts s)) ''ntr_let'' = Some (PyInt 1000) \<and>
   globals (snd (exec_cell L Sample_counts s)) ''nts_dig'' = Some (PyInt 5000) \<and>
   globals (snd (exec_cell L Sample_counts s)) ''nts_let'' = Some (PyInt 1000) \<and>
   (\<exists>a b. globals (snd (exec_cell L Sample_counts s)) ''ntr_dig'' = Some (PyInt a) \<and>
          globals (snd (exec_cell L Sample_counts s)) ''ntr_let'' = Some (PyInt b) \<and>
          a + b = 6000) \<and>
   (\<exists>a b. globals (snd (exec_cell L Sample_counts s)) ''nts_dig'' = Some (PyInt a) \<and>
          globals (snd (exec_cell L Sample_counts s)) ''nts_let'' = Some (PyInt b) \<and>
          a + b = 6000) \<and>
   globals (snd (run L cs s)) ''Xtr1_dig'' = globals s ''Xtr1_dig'' \<and>
   globals (snd (run L cs s)) ''ytr1_dig'' = globals s ''ytr1_dig'' \<and>
   globals (snd (run L cs s)) ''Xts1_dig'' = globals s ''Xts1_dig'' \<and>
   globals (snd (run L cs s)) ''yts1_dig'' = globals s ''yts1_dig'' \<and>
   globals (snd (run L cs s)) ''Xtr1_let'' = globals s ''Xtr1_let'' \<and>
   globals (snd (run L cs s)) ''ytr1_let'' = globals s ''ytr1_let'' \<and>
   globals (snd (run L cs s)) ''Xts1_let'' = globals s ''Xts1_let'' \<and>
   globals (snd (run L cs s)) ''yts1_let'' = globals s ''yts1_let''"
proof -
  have ok: "fst (exec_cell L Sample_counts s) = Inr ()" by simp
  have counts:
    "globals (snd (exec_cell L Sample_counts s)) ''ntr_dig'' = Some (PyInt 5000)"
    "globals (snd (exec_cell L Sample_counts s)) ''ntr_let'' = Some (PyInt 1000)"
    "globals (snd (exec_cell L Sample_counts s)) ''nts_dig'' = Some (PyInt 5000)"
    "globals (snd (exec_cell L Sample_counts s)) ''nts_let'' = Some (PyInt 1000)"
    by (simp_all add: assign_fields)
  have train: "\<exists>a b. globals (snd (exec_cell L Sample_counts s)) ''ntr_dig'' = Some (PyInt a) \<and>
          globals (snd (exec_cell L Sample_counts s)) ''ntr_let'' = Some (PyInt b) \<and>
          a + b = 6000"
    using counts by (intro exI[of _ 5000] exI[of _ "1000::int"] conjI) simp_all
  have test: "\<exists>a b. globals (snd (exec_cell L Sample_counts s)) ''nts_dig'' = Some (PyInt a) \<and>
          globals (snd (exec_cell L Sample_counts s)) ''nts_let'' = Some (PyInt b) \<and>
          a + b = 6000"
    using counts by (intro exI[of _ 5000] exI[of _ "1000::int"] conjI) simp_all
  have sampled: "globals (snd (run L cs s)) k = globals s k"
    if "k \<in> {''Xtr1_dig'', ''ytr1_dig'', ''Xts1_dig'', ''yts1_dig'',
              ''Xtr1_let'', ''ytr1_let'', ''Xts1_let'', ''yts1_let''}" for k
    by (rule run_never_binds) (use that in \<open>auto simp: notebook_def\<close>)
  from ok counts train test sampled show ?thesis by blast
qed

text \<open>
  On files with two training digits the cells up to the subsampling cell (the plotting
  cells left out) run without an exception, and no subsampled array exists afterwards.
\<close>

theorem sample_counts_small_files:
  "fst (run parsed_library
          [Imports, Def_load_emnist, Load_digits, Load_letters, Remove_list, Sample_counts]
          (fresh small_files)) = Inr () \<and>
   globals (snd (run parsed_library
          [Imports, Def_load_emnist, Load_digits, Load_letters, Remove_list, Sample_counts]
          (fresh small_files))) ''Xtr_dig'' =
     Some (PyArr \<lparr>shape = [2, 3], items = map Scalar [0, 255, 0, 17, 0, 3]\<rparr>) \<and>
   globals (snd (run parsed_library
          [Imports, Def_load_emnist, Load_digits, Load_letters, Remove_list, Sample_counts]
          (fresh small_files))) ''ntr_dig'' = Some (PyInt 5000) \<and>
   globals (snd (run parsed_library
          [Imports, Def_load_emnist, Load_digits, Load_letters, Remove_list, Sample_counts]
          (fresh small_files))) ''Xtr1_dig'' = None \<and>
   globals (snd (run parsed_library
          [Imports, Def_load_emnist, Load_digits, Load_letters, Remove_list, Sample_counts]
          (fresh small_files))) ''ytr1_dig'' = None \<and>
   globals (snd (run parsed_library
          [Imports, Def_load_emnist, Load_digits, Load_letters, Remove_list, Sample_counts]
          (fresh small_files))) ''Xtr1_let'' = None \<and>
   globals (snd (run parsed_library
          [Imports, Def_load_emnist, Load_digits, Load_letters, Remove_list, Sample_counts]
          (fresh small_files))) ''Xts1_dig'' = None \<and>
   globals (snd (run parsed_library
          [Imports, Def_load_emnist, Load_digits, Load_letters, Remove_list, Sample_counts]
          (fresh small_files))) ''Xts1_let'' = None"
  by (simp add: run_Cons run_Nil load_into_small_files files_fresh assign_fields
      assign_all_fields use_module_def)

text \<open>
  Claim C3, as amended. The merge cell holds no code: executing it leaves the session as
  it was, and no cell of the notebook, in any run, binds \<^verbatim>\<open>Xtr\<close>, \<^verbatim>\<open>Xts\<close>, \<^verbatim>\<open>ytr\<close> or
  \<^verbatim>\<open>yts\<close>. Starting from a new kernel the combined label vectors never exist.
\<close>

theorem merge_cell_binds_nothing:
  "exec_cell L Todo_merge s = (Inr (), s) \<and>
   globals (snd (run L cs s)) ''Xtr'' = globals s ''Xtr'' \<and>
   globals (snd (run L cs s)) ''Xts'' = globals s ''Xts'' \<and>
   globals (snd (run L cs s)) ''ytr'' = globals s ''ytr'' \<and>
   globals (snd (run L cs s)) ''yts'' = globals s ''yts'' \<and>
   globals (snd (run L cs (fresh fs))) ''ytr'' = None \<and>
   globals (snd (run L cs (fresh fs))) ''yts'' = None"
proof -
  have cell: "exec_cell L Todo_merge s = (Inr (), s)" by simp
  have merged: "globals (snd (run L cs s')) k = globals s' k"
    if "k \<in> {''Xtr'', ''Xts'', ''ytr'', ''yts''}" for k and s' :: "('a, 'b) session"
    by (rule run_never_binds) (use that in \<open>auto simp: notebook_def\<close>)
  have new: "globals (snd (run L cs (fresh fs))) k = None"
    if "k \<in> {''ytr'', ''yts''}" for k
    using merged[of k "fresh fs"] that by (auto simp: files_fresh)
  from cell merged[where s' = s] new show ?thesis by blast
qed

text \<open>
  After the cells up to the merge cell (the plotting cells left out), on files with
  letters labelled 7 and 9, the letter labels are still 7 and 9 and there is no \<^verbatim>\<open>ytr\<close>
  and no \<^verbatim>\<open>yts\<close>.
\<close>

theorem merge_cell_small_files:
  "fst (run parsed_library
          [Imports, Def_load_emnist, Load_digits, Load_letters, Remove_list, Sample_counts,
           Todo_merge]
          (fresh small_files)) = Inr () \<and>
   globals (snd (run parsed_library
          [Imports, Def_load_emnist, Load_digits, Load_letters, Remove_list, Sample_counts,
           Todo_merge]
          (fresh small_files))) ''ytr_dig'' = Some (PyIntArr \<lparr>shape = [2], items = [7, 9]\<rparr>) \<and>
   globals (snd (run parsed_library
          [Imports, Def_load_emnist, Load_digits, Load_letters, Remove_list, Sample_counts,
           Todo_merge]
          (fresh small_files))) ''ytr_let'' = Some (PyIntArr \<lparr>shape = [2], items = [7, 9]\<rparr>) \<and>
   globals (snd (run parsed_library
          [Imports, Def_load_emnist, Load_digits, Load_letters, Remove_list, Sample_counts,
           Todo_merge]
          (fresh small_files))) ''ytr'' = None \<and>
   globals (snd (run parsed_library
          [Imports, Def_load_emnist, Load_digits, Load_letters, Remove_list, Sample_counts,
           Todo_merge]
          (fresh small_files))) ''yts'' = None"
  by (simp add: run_Cons run_Nil load_into_small_files files_fresh assign_fields
      assign_all_fields use_module_def)

text \<open>
  Claim C6, as amended. The cell for the predefined split holds no code: executing it
  leaves the session as it was, and no cell of the notebook, in any run, binds
  \<^verbatim>\<open>test_fold\<close> or \<^verbatim>\<open>ps\<close>. Starting from a new kernel the partition marker never exists.
\<close>

theorem predefined_split_cell_binds_nothing:
  "exec_cell L Todo_predefined_split s = (Inr (), s) \<and>
   globals (snd (run L cs s)) ''test_fold'' = globals s ''test_fold'' \<and>
   globals (snd (run L cs s)) ''ps'' = globals s ''ps'' \<and>
   globals (snd (run L cs (fresh fs))) ''test_fold'' = None \<and>
   globals (snd (run L cs (fresh fs))) ''ps'' = None"
proof -
  have cell: "exec_cell L Todo_predefined_split s = (Inr (), s)" by simp
  have marker: "globals (snd (run L cs s')) k = globals s' k"
    if "k \<in> {''test_fold'', ''ps''}" for k and s' :: "('a, 'b) session"
    by (rule run_never_binds) (use that in \<open>auto simp: notebook_def\<close>)
  have new: "globals (snd (run L cs (fresh fs))) k = None"
    if "k \<in> {''test_fold'', ''ps''}" for k
    using marker[of k "fresh fs"] that by (auto simp: files_fresh)
  from cell marker[where s' = s] new show ?thesis by blast
qed

text \<open>
  After the cells up to the one for the predefined split (the plotting cells left out)
  there is no \<^verbatim>\<open>test_fold\<close> and no \<^verbatim>\<open>ps\<close>.
\<close>

theorem predefined_split_small_files:
  "fst (run parsed_library
          [Imports, Def_load_emnist, Load_digits, Load_letters, Remove_list, Sample_counts,
           Todo_merge, Todo_rescale, Import_svm, Todo_fit, Todo_accuracy,
           Import_confusion_matrix, Todo_error_rates, Todo_combine, Todo_predefined_split]
          (fresh small_files)) = Inr () \<and>
   globals (snd (run parsed_library
          [Imports, Def_load_emnist, Load_digits, Load_letters, Remove_list, Sample_counts,
           Todo_merge, Todo_rescale, Import_svm, Todo_fit, Todo_accuracy,
           Import_confusion_matrix, Todo_error_rates, Todo_combine, Todo_predefined_split]
          (fresh small_files))) ''Xts_dig'' =
     Some (PyArr \<lparr>shape = [1, 3], items = map Scalar [5, 0, 0]\<rparr>) \<and>
   globals (snd (run parsed_library
          [Imports, Def_load_emnist, Load_digits, Load_letters, Remove_list, Sample_counts,
           Todo_merge, Todo_rescale, Import_svm, Todo_fit, Todo_accuracy,
           Import_confusion_matrix, Todo_error_rates, Todo_combine, Todo_predefined_split]
          (fresh small_files))) ''test_fold'' = None \<and>
   globals (snd (run parsed_library
          [Imports, Def_load_emnist, Load_digits, Load_letters, Remove_list, Sample_counts,
           Todo_merge, Todo_rescale, Import_svm, Todo_fit, Todo_accuracy,
           Import_confusion_matrix, Todo_error_rates, Todo_combine, Todo_predefined_split]
          (fresh small_files))) ''ps'' = None"
  by (simp add: run_Cons run_Nil load_into_small_files files_fresh assign_fields
      assign_all_fields use_module_def)


end
